theory Spec2Isabelle
  imports Complex_Main "HOL-Library.AList"
begin

section \<open>Python values, dictionaries and errors\<close>

text \<open>
  The parameter dictionaries of \<^verbatim>\<open>simulate_predefined_gds\<close> hold arbitrary Python
  values. A dictionary is an association list with string keys, in insertion order; a
  float is a real number; a NumPy array is represented by the list that its
  \<^verbatim>\<open>tolist()\<close> returns.
\<close>

datatype pyval =
    VNone
  | VBool bool
  | VInt int
  | VFloat real
  | VComplex real real
  | VStr string
  | VList "pyval list"
  | VTuple "pyval list"
  | VArray "pyval list"
  | VDict "(string \<times> pyval) list"

type_synonym pydict = "(string \<times> pyval) list"

datatype error =
    ValueError
  | TypeError
  | IndexError
  | KeyError
  | EOFError
  | RuntimeError
  | FileNotFoundError
  | PermissionError
  | FileExistsError
  | IsADirectoryError
  | UnboundLocalError
  | KeyboardInterrupt

text \<open>\<^verbatim>\<open>d.get(k)\<close>: the value, or \<^verbatim>\<open>None\<close> for a missing key.\<close>

definition dict_get :: "pydict \<Rightarrow> string \<Rightarrow> pyval" where
  "dict_get d k = (case map_of d k of None \<Rightarrow> VNone | Some v \<Rightarrow> v)"

text \<open>\<^verbatim>\<open>d[k]\<close>: the value, or \<^verbatim>\<open>KeyError\<close>.\<close>

definition dict_item :: "pydict \<Rightarrow> string \<Rightarrow> error + pyval" where
  "dict_item d k = (case map_of d k of None \<Rightarrow> Inl KeyError | Some v \<Rightarrow> Inr v)"

text \<open>
  \<^verbatim>\<open>p.update(m)\<close>: every item of \<open>m\<close>, in order, is stored into \<open>p\<close>; an existing
  key keeps its position and takes the new value, a new key is appended.
\<close>

definition dict_update :: "pydict \<Rightarrow> pydict \<Rightarrow> pydict" where
  "dict_update p m = fold (\<lambda>(k, v) d. AList.update k v d) m p"

text \<open>
  Truth value of a Python object, as \<^verbatim>\<open>not x\<close> computes it. An array of more than
  one element has no truth value (NumPy raises \<^verbatim>\<open>ValueError\<close>).
\<close>

fun truthy :: "pyval \<Rightarrow> error + bool" where
  "truthy VNone = Inr False"
| "truthy (VBool b) = Inr b"
| "truthy (VInt i) = Inr (i \<noteq> 0)"
| "truthy (VFloat r) = Inr (r \<noteq> 0)"
| "truthy (VComplex r i) = Inr (r \<noteq> 0 \<or> i \<noteq> 0)"
| "truthy (VStr s) = Inr (s \<noteq> [])"
| "truthy (VList xs) = Inr (xs \<noteq> [])"
| "truthy (VTuple xs) = Inr (xs \<noteq> [])"
| "truthy (VDict kvs) = Inr (kvs \<noteq> [])"
| "truthy (VArray []) = Inr False"
| "truthy (VArray [x]) = truthy x"
| "truthy (VArray (x # y # zs)) = Inl ValueError"

section \<open>JSON serialisation (helper\_functions/generic/misc.py)\<close>

text \<open>
  The JSON document is modelled as the tree that \<^verbatim>\<open>json.dump\<close> emits and
  \<^verbatim>\<open>json.load\<close> reads; the text form of the tree belongs to Python's
  \<^verbatim>\<open>json\<close> module and is not modelled. An integer and a float stay distinct,
  as they do in the text.
\<close>

datatype json =
    JNull
  | JBool bool
  | JInt int
  | JFloat real
  | JStr string
  | JArr "json list"
  | JObj "(string \<times> json) list"

text \<open>
  \<^verbatim>\<open>convert_for_json\<close>: dictionaries and lists are converted item by item, an array
  becomes its \<^verbatim>\<open>tolist()\<close> (not converted further), a complex number becomes the
  dictionary of its parts, anything else (a tuple too) is returned as it is.
\<close>

fun convert_for_json :: "pyval \<Rightarrow> pyval"
  and convert_items :: "(string \<times> pyval) list \<Rightarrow> (string \<times> pyval) list"
  and convert_list :: "pyval list \<Rightarrow> pyval list" where
  "convert_for_json (VDict kvs) = VDict (convert_items kvs)"
| "convert_for_json (VList xs) = VList (convert_list xs)"
| "convert_for_json (VArray xs) = VList xs"
| "convert_for_json (VComplex r i) = VDict [(''real'', VFloat r), (''imag'', VFloat i)]"
| "convert_for_json VNone = VNone"
| "convert_for_json (VBool b) = VBool b"
| "convert_for_json (VInt n) = VInt n"
| "convert_for_json (VFloat r) = VFloat r"
| "convert_for_json (VStr s) = VStr s"
| "convert_for_json (VTuple xs) = VTuple xs"
| "convert_items [] = []"
| "convert_items ((k, v) # kvs) = (k, convert_for_json v) # convert_items kvs"
| "convert_list [] = []"
| "convert_list (x # xs) = convert_for_json x # convert_list xs"

text \<open>
  \<^verbatim>\<open>json.dump(obj, f, cls=ComplexEncoder)\<close>: the standard encoder walks dictionaries,
  lists and tuples and writes the scalars; for any other object it calls
  \<^verbatim>\<open>ComplexEncoder.default\<close> and encodes what that returns: the dictionary of the
  parts for a complex number, \<^verbatim>\<open>tolist()\<close> for an array.
\<close>

fun json_dump :: "pyval \<Rightarrow> json"
  and json_dump_items :: "(string \<times> pyval) list \<Rightarrow> (string \<times> json) list"
  and json_dump_list :: "pyval list \<Rightarrow> json list" where
  "json_dump VNone = JNull"
| "json_dump (VBool b) = JBool b"
| "json_dump (VInt n) = JInt n"
| "json_dump (VFloat r) = JFloat r"
| "json_dump (VStr s) = JStr s"
| "json_dump (VList xs) = JArr (json_dump_list xs)"
| "json_dump (VTuple xs) = JArr (json_dump_list xs)"
| "json_dump (VDict kvs) = JObj (json_dump_items kvs)"
| "json_dump (VComplex r i) = JObj [(''real'', JFloat r), (''imag'', JFloat i)]"
| "json_dump (VArray xs) = JArr (json_dump_list xs)"
| "json_dump_items [] = []"
| "json_dump_items ((k, v) # kvs) = (k, json_dump v) # json_dump_items kvs"
| "json_dump_list [] = []"
| "json_dump_list (x # xs) = json_dump x # json_dump_list xs"

text \<open>\<^verbatim>\<open>json.load\<close>: objects become dictionaries, arrays become lists.\<close>

fun json_load :: "json \<Rightarrow> pyval"
  and json_load_items :: "(string \<times> json) list \<Rightarrow> (string \<times> pyval) list"
  and json_load_list :: "json list \<Rightarrow> pyval list" where
  "json_load JNull = VNone"
| "json_load (JBool b) = VBool b"
| "json_load (JInt n) = VInt n"
| "json_load (JFloat r) = VFloat r"
| "json_load (JStr s) = VStr s"
| "json_load (JArr xs) = VList (json_load_list xs)"
| "json_load (JObj kvs) = VDict (json_load_items kvs)"
| "json_load_items [] = []"
| "json_load_items ((k, v) # kvs) = (k, json_load v) # json_load_items kvs"
| "json_load_list [] = []"
| "json_load_list (x # xs) = json_load x # json_load_list xs"

section \<open>Paths, the file system and the console\<close>

text \<open>
  \<^verbatim>\<open>os.path.dirname\<close> (the POSIX version): the part before the last \<^verbatim>\<open>/\<close>, its
  trailing slashes stripped unless it consists of slashes only. A name without a slash
  has the empty directory name.
\<close>

definition dirname :: "string \<Rightarrow> string" where
  "dirname p =
     (let head = rev (dropWhile (\<lambda>c. c \<noteq> CHR ''/'') (rev p))
      in if head \<noteq> [] \<and> \<not> list_all (\<lambda>c. c = CHR ''/'') head
         then rev (dropWhile (\<lambda>c. c = CHR ''/'') (rev head))
         else head)"

text \<open>
  \<^verbatim>\<open>str.strip()\<close> and \<^verbatim>\<open>str.lower()\<close>, for text whose characters are the code
  points below 256. The white space of \<^verbatim>\<open>str.isspace\<close> there: the codes 9 to 13, 28
  to 32, 133 (next line) and 160 (no-break space). The capital letters there: A to Z,
  and the codes 192 to 222 without 215 (the multiplication sign); each has its small
  letter 32 places further on.
\<close>

definition is_space :: "char \<Rightarrow> bool" where
  "is_space c =
     (let n = (of_char c :: nat)
      in (9 \<le> n \<and> n \<le> 13) \<or> (28 \<le> n \<and> n \<le> 32) \<or> n = 133 \<or> n = 160)"

definition strip :: "string \<Rightarrow> string" where
  "strip s = rev (dropWhile is_space (rev (dropWhile is_space s)))"

definition lower_char :: "char \<Rightarrow> char" where
  "lower_char c =
     (let n = (of_char c :: nat)
      in if (65 \<le> n \<and> n \<le> 90) \<or> (192 \<le> n \<and> n \<le> 222 \<and> n \<noteq> 215)
         then char_of (n + 32) else c)"

definition lower :: "string \<Rightarrow> string" where
  "lower s = map lower_char s"

text \<open>
  What the operator does at the prompt: a line of text ended by the return key, or an
  interrupt (Ctrl-C), which \<^verbatim>\<open>input\<close> raises as \<^verbatim>\<open>KeyboardInterrupt\<close>. When the
  console has nothing more to give, \<^verbatim>\<open>input\<close> raises \<^verbatim>\<open>EOFError\<close>.
\<close>

datatype console_event = Line string | Interrupt

text \<open>
  The state that the pipeline reads and writes: the files and directories that exist,
  the paths that exist but may not be read, the open file descriptors, the content of
  the JSON files written, the parameter dictionary of every call of
  \<^verbatim>\<open>fdtd_from_gds\<close> so far, and the console input still to come.
  Intermediate directories and permissions to write are not tracked.
\<close>

record world =
  files :: "string set"
  dirs :: "string set"
  unreadable :: "string set"
  open_fds :: "int set"
  json_files :: "string \<Rightarrow> json option"
  engine_calls :: "pydict list"
  stdin :: "console_event list"

text \<open>
  \<^verbatim>\<open>os.path.exists\<close> answers for a string path, and for an integer (a
  \<^verbatim>\<open>bool\<close> is an integer) taken as a file descriptor; any other object raises
  \<^verbatim>\<open>TypeError\<close>. \<^verbatim>\<open>os.access\<close> takes no file descriptor.
\<close>

fun os_path_exists :: "world \<Rightarrow> pyval \<Rightarrow> error + bool" where
  "os_path_exists w (VStr s) = Inr (s \<in> files w \<or> s \<in> dirs w)"
| "os_path_exists w (VInt n) = Inr (n \<in> open_fds w)"
| "os_path_exists w (VBool b) = Inr ((if b then 1 else 0) \<in> open_fds w)"
| "os_path_exists w _ = Inl TypeError"

fun os_access_R_OK :: "world \<Rightarrow> pyval \<Rightarrow> error + bool" where
  "os_access_R_OK w (VStr s) = Inr ((s \<in> files w \<or> s \<in> dirs w) \<and> s \<notin> unreadable w)"
| "os_access_R_OK w _ = Inl TypeError"

text \<open>\<^verbatim>\<open>validate_file_path\<close> (misc.py, lines 96 to 113).\<close>

definition validate_file_path :: "world \<Rightarrow> pyval \<Rightarrow> error + bool" where
  "validate_file_path w file_path =
     (case os_path_exists w file_path of
        Inl e \<Rightarrow> Inl e
      | Inr False \<Rightarrow> Inl FileNotFoundError
      | Inr True \<Rightarrow>
          (case os_access_R_OK w file_path of
             Inl e \<Rightarrow> Inl e
           | Inr False \<Rightarrow> Inl PermissionError
           | Inr True \<Rightarrow> Inr True))"

text \<open>
  \<^verbatim>\<open>os.makedirs(d, exist_ok=True)\<close>: the empty path cannot be created
  (\<^verbatim>\<open>mkdir('')\<close> fails with \<^verbatim>\<open>FileNotFoundError\<close>, and the empty path is not an
  existing directory, so \<^verbatim>\<open>exist_ok\<close> does not absorb the failure); an existing
  directory is accepted; a file of that name is in the way.
\<close>

definition os_makedirs :: "world \<Rightarrow> string \<Rightarrow> (error + unit) \<times> world" where
  "os_makedirs w d =
     (if d = [] then (Inl FileNotFoundError, w)
      else if d \<in> dirs w then (Inr (), w)
      else if d \<in> files w then (Inl FileExistsError, w)
      else (Inr (), w\<lparr>dirs := insert d (dirs w)\<rparr>))"

text \<open>
  \<^verbatim>\<open>write_to_json\<close> (misc.py, lines 51 to 76): convert, create the directory of the
  file, open the file for writing and dump. Every exception is logged and raised again
  unchanged.
\<close>

definition write_to_json :: "world \<Rightarrow> pydict \<Rightarrow> string \<Rightarrow> (error + unit) \<times> world" where
  "write_to_json w dict_name json_name =
     (let converted_dict = convert_for_json (VDict dict_name)
      in case os_makedirs w (dirname json_name) of
           (Inl e, w1) \<Rightarrow> (Inl e, w1)
         | (Inr _, w1) \<Rightarrow>
             if json_name \<in> dirs w1 then (Inl IsADirectoryError, w1)
             else (Inr (),
                   w1\<lparr>files := insert json_name (files w1),
                      json_files := (json_files w1)(json_name \<mapsto> json_dump converted_dict)\<rparr>))"

section \<open>Parameter resolution and run orchestration (simulate\_device.py)\<close>

text \<open>
  What \<^verbatim>\<open>open("config.json")\<close> followed by \<^verbatim>\<open>json.load\<close> finds: no file, a file
  that is not JSON, or a JSON object.
\<close>

datatype config_file = ConfigMissing | ConfigMalformed | ConfigObject pydict

text \<open>
  The collaborators that the function calls and this repository does not define: the
  persisted configuration, the clock (as the text that \<^verbatim>\<open>strftime\<close> returns),
  gdsfactory (whether it can import a given file and write the copy), and the value
  that \<^verbatim>\<open>fdtd_from_gds\<close> returns for a parameter dictionary.
\<close>

record env =
  config_json :: config_file
  now :: string
  gds_importable :: "string \<Rightarrow> bool"
  engine :: "pydict \<Rightarrow> error + pyval"

text \<open>The default settings of the Lumerical variant (lines 51 to 71).\<close>

definition lumerical_defaults :: "string \<Rightarrow> pydict" where
  "lumerical_defaults timestamp =
     [(''wavelength'', VFloat (85 / 100)),
      (''wav_span'', VFloat (2 / 100)),
      (''wav_step'', VFloat (1 / 100)),
      (''resolution'', VInt 6),
      (''temperature'', VInt 300),
      (''predefined_gds'', VStr ''mmi_1x2_450_VISPIC2.gds''),
      (''material_type'', VStr ''universal''),
      (''guiding_material'', VStr ''SiN''),
      (''lumapi_path'',
         VStr (''C:'' @ [CHR 0x5C] @ ''Program Files'' @ [CHR 0x5C] @ ''Lumerical''
               @ [CHR 0x5C] @ ''v251'' @ [CHR 0x5C] @ ''api'' @ [CHR 0x5C] @ ''python'')),
      (''file_name'', VStr (''test_'' @ timestamp)),
      (''mode_num'', VInt 5),
      (''mode_idx'', VInt 1),
      (''flag_extend'', VInt 1),
      (''extension'', VInt 10),
      (''flag_run_simulation'', VInt 0),
      (''flag_boolean'', VInt 0),
      (''solver_z_min'', VInt (- 1)),
      (''solver_z_max'', VInt 1),
      (''change_cladding'', VBool False)]"

text \<open>The default settings of the Tidy3D variant (lines 50 to 69).\<close>

definition tidy3d_defaults :: "string \<Rightarrow> pydict" where
  "tidy3d_defaults timestamp =
     [(''wavelength'', VFloat (155 / 100)),
      (''wav_span'', VFloat (5 / 100)),
      (''resolution'', VInt 6),
      (''temperature'', VInt 300),
      (''predefined_gds'', VStr ''mmi_1x2_450_VISPIC2.gds''),
      (''material_type'', VStr ''universal''),
      (''guiding_material'', VStr ''SiN''),
      (''file_name'', VStr (''test_'' @ timestamp)),
      (''task_name'', VStr (''test_'' @ timestamp)),
      (''mode_num'', VInt 5),
      (''mode_idx'', VInt 1),
      (''flag_extend'', VInt 1),
      (''extension'', VInt 10),
      (''flag_run_simulation'', VInt 0),
      (''flag_boolean'', VInt 0),
      (''solver_z_min'', VInt (- 1)),
      (''solver_z_max'', VInt 1),
      (''change_cladding'', VBool False)]"

text \<open>
  The first part of \<^verbatim>\<open>simulate_predefined_gds\<close>, up to the derived key
  \<^verbatim>\<open>gds_file\<close> (Lumerical lines 50 to 99, Tidy3D lines 49 to 96): the defaults, the
  configuration over them, the caller's parameters over that (\<open>merge_layers\<close>), then
  the two validations and the output geometry path stored under \<^verbatim>\<open>gds_file\<close>. A malformed
  configuration is raised as \<^verbatim>\<open>ValueError\<close>. Adding \<^verbatim>\<open>'.gds'\<close> to a
  \<^verbatim>\<open>file_name\<close> that is not a string raises \<^verbatim>\<open>TypeError\<close>.
\<close>

definition merge_layers :: "(string \<Rightarrow> pydict) \<Rightarrow> env \<Rightarrow> pydict \<Rightarrow> error + pydict" where
  "merge_layers defaults E parameters =
     (case config_json E of
        ConfigMalformed \<Rightarrow> Inl ValueError
      | ConfigMissing \<Rightarrow> Inr (dict_update (defaults (now E)) parameters)
      | ConfigObject config \<Rightarrow>
          Inr (dict_update (dict_update (defaults (now E)) config) parameters))"

definition resolve :: "(string \<Rightarrow> pydict) \<Rightarrow> env \<Rightarrow> world \<Rightarrow> pydict \<Rightarrow> error + pydict" where
  "resolve defaults E w parameters =
     (case merge_layers defaults E parameters of
        Inl e \<Rightarrow> Inl e
      | Inr p \<Rightarrow>
          (case truthy (dict_get p ''predefined_gds'') of
             Inl e \<Rightarrow> Inl e
           | Inr False \<Rightarrow> Inl ValueError
           | Inr True \<Rightarrow>
               (case dict_item p ''predefined_gds'' of
                  Inl e \<Rightarrow> Inl e
                | Inr path \<Rightarrow>
                    (case validate_file_path w path of
                       Inl e \<Rightarrow> Inl e
                     | Inr _ \<Rightarrow>
                         (case dict_item p ''file_name'' of
                            Inl e \<Rightarrow> Inl e
                          | Inr (VStr file_name) \<Rightarrow>
                              Inr (AList.update ''gds_file'' (VStr (file_name @ ''.gds'')) p)
                          | Inr _ \<Rightarrow> Inl TypeError)))))"

text \<open>
  The call \<^verbatim>\<open>fdtd_from_gds(parameters=p)\<close>: the function lives in
  \<^verbatim>\<open>initiate_fdtd.py\<close> and is a collaborator here; the model records that it was
  called, with which dictionary, and returns what the collaborator returns.
\<close>

definition fdtd_from_gds :: "env \<Rightarrow> pydict \<Rightarrow> world \<Rightarrow> (error + pyval) \<times> world" where
  "fdtd_from_gds E p w = (engine E p, w\<lparr>engine_calls := engine_calls w @ [p]\<rparr>)"

text \<open>
  The confirmation loop (Lumerical lines 125 to 139, Tidy3D lines 122 to 136), over the
  console input still to come. The answer is stripped and put in lower case before it
  is compared. The body of the loop is one \<^verbatim>\<open>try\<close> block whose handler catches
  \<^verbatim>\<open>KeyboardInterrupt\<close> and returns \<^verbatim>\<open>None\<close>: that covers an interrupt at the
  prompt and also an interrupt that comes out of the call of \<^verbatim>\<open>fdtd_from_gds\<close> after
  the answer \<^verbatim>\<open>y\<close>. Any other exception of that call leaves the function unchanged,
  and so does the end of the input, as \<^verbatim>\<open>EOFError\<close>.
\<close>

fun confirm_loop :: "env \<Rightarrow> pydict \<Rightarrow> console_event list \<Rightarrow> world \<Rightarrow> (error + pyval) \<times> world" where
  "confirm_loop E p [] w = (Inl EOFError, w\<lparr>stdin := []\<rparr>)"
| "confirm_loop E p (Interrupt # rest) w = (Inr VNone, w\<lparr>stdin := rest\<rparr>)"
| "confirm_loop E p (Line s # rest) w =
     (let response = lower (strip s)
      in if response = ''y''
         then (case fdtd_from_gds E p (w\<lparr>stdin := rest\<rparr>) of
                 (Inl e, w') \<Rightarrow> if e = KeyboardInterrupt then (Inr VNone, w') else (Inl e, w')
               | (Inr results, w') \<Rightarrow> (Inr results, w'))
         else if response = ''n'' then (Inr VNone, w\<lparr>stdin := rest\<rparr>)
         else confirm_loop E p rest w)"

text \<open>
  The check for an existing simulation file and what follows it (Lumerical lines 121
  to 143, Tidy3D lines 118 to 140). Without such a file the call of \<^verbatim>\<open>fdtd_from_gds\<close>
  stands outside every handler, and whatever it raises leaves the function.
\<close>

definition artifact_gate :: "env \<Rightarrow> pydict \<Rightarrow> string \<Rightarrow> world \<Rightarrow> (error + pyval) \<times> world" where
  "artifact_gate E p simulation_file w =
     (if simulation_file \<in> files w \<or> simulation_file \<in> dirs w
      then confirm_loop E p (stdin w) w
      else fdtd_from_gds E p w)"

text \<open>
  The whole function, for a table of defaults and the suffix of the simulation file.
  After the resolution the parameters are written to the JSON file, the geometry is
  copied (any failure there is raised as \<^verbatim>\<open>RuntimeError\<close>), and the gate decides.
  The loop that copies every parameter into the module's globals is read as: the
  names \<^verbatim>\<open>file_name\<close>, \<^verbatim>\<open>predefined_gds\<close> and \<^verbatim>\<open>gds_file\<close> used afterwards are
  the entries of \<open>p\<close>, which are strings after a successful resolution (the case
  for anything else is never taken). A parameter named like a function of the module
  would replace that function; such keys are outside the model.
\<close>

definition simulate :: "(string \<Rightarrow> pydict) \<Rightarrow> string \<Rightarrow> env \<Rightarrow> pydict \<Rightarrow> world \<Rightarrow> (error + pyval) \<times> world" where
  "simulate defaults suffix E parameters w =
     (case resolve defaults E w parameters of
        Inl e \<Rightarrow> (Inl e, w)
      | Inr p \<Rightarrow>
          (case (dict_get p ''file_name'', dict_get p ''predefined_gds'', dict_get p ''gds_file'') of
             (VStr file_name, VStr predefined_gds, VStr gds_file) \<Rightarrow>
               (case write_to_json w p (file_name @ ''.json'') of
                  (Inl e, w1) \<Rightarrow> (Inl e, w1)
                | (Inr _, w1) \<Rightarrow>
                    if \<not> gds_importable E predefined_gds then (Inl RuntimeError, w1)
                    else artifact_gate E p (file_name @ suffix)
                           (w1\<lparr>files := insert gds_file (files w1)\<rparr>))
           | _ \<Rightarrow> (Inl TypeError, w)))"

definition lumerical_simulate_predefined_gds :: "env \<Rightarrow> pydict \<Rightarrow> world \<Rightarrow> (error + pyval) \<times> world" where
  "lumerical_simulate_predefined_gds = simulate lumerical_defaults ''_FDTD.fsp''"

definition tidy3d_simulate_predefined_gds :: "env \<Rightarrow> pydict \<Rightarrow> world \<Rightarrow> (error + pyval) \<times> world" where
  "tidy3d_simulate_predefined_gds = simulate tidy3d_defaults ''_results.hdf5''"

section \<open>Reading a spectrum (find\_FWHM.py, data\_analysis.py)\<close>

text \<open>
  The numbers of the raw results are finite floats, modelled as reals. A NumPy division
  does not raise on a zero divisor: it yields an infinity or not-a-number, so the result
  of a division is a real or one of these three. (The sign of a zero is not modelled.)
\<close>

datatype npfloat = Fin real | PosInf | NegInf | NaN

definition np_divide :: "real \<Rightarrow> real \<Rightarrow> npfloat" where
  "np_divide x y =
     (if y \<noteq> 0 then Fin (x / y)
      else if x = 0 then NaN
      else if 0 < x then PosInf else NegInf)"

fun np_less :: "npfloat \<Rightarrow> npfloat \<Rightarrow> bool" where
  "np_less (Fin a) (Fin b) = (a < b)"
| "np_less (Fin a) PosInf = True"
| "np_less NegInf (Fin b) = True"
| "np_less NegInf PosInf = True"
| "np_less _ _ = False"

text \<open>\<^verbatim>\<open>np.max\<close> and \<^verbatim>\<open>np.min\<close>: an empty array raises \<^verbatim>\<open>ValueError\<close>.\<close>

fun np_max :: "real list \<Rightarrow> error + real" where
  "np_max [] = Inl ValueError"
| "np_max (x # xs) = Inr (fold max xs x)"

fun np_min :: "real list \<Rightarrow> error + real" where
  "np_min [] = Inl ValueError"
| "np_min (x # xs) = Inr (fold min xs x)"

text \<open>The maximum of an array of results; not-a-number wins over everything.\<close>

definition np_maximum :: "npfloat \<Rightarrow> npfloat \<Rightarrow> npfloat" where
  "np_maximum a b = (if a = NaN \<or> b = NaN then NaN else if np_less a b then b else a)"

fun np_max_f :: "npfloat list \<Rightarrow> error + npfloat" where
  "np_max_f [] = Inl ValueError"
| "np_max_f (x # xs) = Inr (fold (\<lambda>b a. np_maximum a b) xs x)"

definition strictly_ascending :: "npfloat list \<Rightarrow> bool" where
  "strictly_ascending ws = sorted_wrt np_less ws"

text \<open>
  \<^verbatim>\<open>a[:, 0]\<close> on a two-dimensional array given by its rows: the first entry of every
  row, \<^verbatim>\<open>IndexError\<close> when the rows have no entry.
\<close>

fun column0 :: "'a list list \<Rightarrow> error + 'a list" where
  "column0 [] = Inr []"
| "column0 ([] # rows) = Inl IndexError"
| "column0 ((x # _) # rows) = (case column0 rows of Inl e \<Rightarrow> Inl e | Inr xs \<Rightarrow> Inr (x # xs))"

text \<open>
  What \<^verbatim>\<open>getresult("FDTD::ports::o2", "expansion for port monitor")\<close> returns from a
  loaded Lumerical project: the table \<^verbatim>\<open>T_net\<close> and the column \<^verbatim>\<open>lambda\<close> (in
  metres), both two-dimensional.
\<close>

record lumerical_result =
  T_net :: "real list list"
  lambda :: "real list list"

text \<open>
  \<^verbatim>\<open>read_lumerical_output\<close> (lines 17 to 31); \<open>getresult\<close> stands for loading the
  project file and asking it for the result.
\<close>

definition read_lumerical_output ::
  "(string \<Rightarrow> error + lumerical_result) \<Rightarrow> string \<Rightarrow> error + npfloat list \<times> npfloat list" where
  "read_lumerical_output getresult fname =
     (case getresult fname of
        Inl e \<Rightarrow> Inl e
      | Inr temp \<Rightarrow>
          (case column0 (lambda temp) of
             Inl e \<Rightarrow> Inl e
           | Inr wav0 \<Rightarrow>
               (let wav = rev (map (\<lambda>x. x * 10 ^ 6) wav0)
                in case column0 (T_net temp) of
                     Inl e \<Rightarrow> Inl e
                   | Inr T_TE0 \<Rightarrow>
                       (case np_max T_TE0 of
                          Inl e \<Rightarrow> Inl e
                        | Inr m \<Rightarrow> Inr (map Fin wav, rev (map (\<lambda>x. np_divide x m) T_TE0))))))"

text \<open>
  A Tidy3D mode monitor: its frequencies and, for every frequency, the complex
  amplitudes of the modes in the direction \<^verbatim>\<open>+\<close>. The simulation data of a file
  is a dictionary of monitors. \<^verbatim>\<open>td.C_0\<close> is the speed of light in micrometres per
  second.
\<close>

record mode_data =
  freqs :: "real list"
  amps_plus :: "complex list list"

definition C_0 :: real where
  "C_0 = 299792458 * 10 ^ 6"

text \<open>
  \<^verbatim>\<open>read_mode_monitor_from_file\<close> (data\_analysis.py, lines 11 to 56); \<open>from_file\<close>
  stands for \<^verbatim>\<open>td.SimulationData.from_file\<close>, and the simulation data is read as
  a dictionary, so that a missing monitor is the \<^verbatim>\<open>KeyError\<close> that the handler
  expects. A missing file and a missing monitor are raised again as they are; any other
  exception becomes \<^verbatim>\<open>ValueError\<close>. A \<^verbatim>\<open>KeyError\<close> out of the loading itself
  reaches the same handler, whose message reads the data that was never bound. The
  logging calls are left out.
\<close>

definition read_mode_monitor_from_file ::
  "(string \<Rightarrow> error + (string \<times> mode_data) list) \<Rightarrow> string option \<Rightarrow> string option
     \<Rightarrow> error + npfloat list \<times> real list list" where
  "read_mode_monitor_from_file from_file fname monitor =
     (case fname of
        None \<Rightarrow> Inl ValueError
      | Some fname' \<Rightarrow>
          (case monitor of
             None \<Rightarrow> Inl ValueError
           | Some monitor' \<Rightarrow>
               (case from_file fname' of
                  Inl e \<Rightarrow>
                    (if e = FileNotFoundError then Inl FileNotFoundError
                     else if e = KeyError then Inl UnboundLocalError
                     else Inl ValueError)
                | Inr sim_data \<Rightarrow>
                    (case map_of sim_data monitor' of
                       None \<Rightarrow> Inl KeyError
                     | Some md \<Rightarrow>
                         (let coeffs = map (map (\<lambda>z. (cmod z)\<^sup>2)) (amps_plus md);
                              lambdas = map (\<lambda>f. np_divide C_0 f) (freqs md)
                          in Inr (lambdas, coeffs))))))"

text \<open>\<^verbatim>\<open>read_tidy3d_output\<close> (find\_FWHM.py, lines 33 to 41).\<close>

definition read_tidy3d_output ::
  "(string \<Rightarrow> error + (string \<times> mode_data) list) \<Rightarrow> string \<Rightarrow> error + npfloat list \<times> npfloat list" where
  "read_tidy3d_output from_file fname =
     (case read_mode_monitor_from_file from_file (Some fname) (Some ''o2 mode'') of
        Inl e \<Rightarrow> Inl e
      | Inr (wav0, T0) \<Rightarrow>
          (let wav = rev wav0
           in case column0 T0 of
                Inl e \<Rightarrow> Inl e
              | Inr T \<Rightarrow>
                  (case np_max T of
                     Inl e \<Rightarrow> Inl e
                   | Inr m \<Rightarrow> Inr (wav, rev (map (\<lambda>x. np_divide x m) T)))))"

section \<open>Finding the width of the resonance (find\_FWHM.py)\<close>

text \<open>
  \<open>a[i]\<close> on a NumPy array of length \<open>n\<close>: the indices \<open>0\<close> to \<open>n - 1\<close> count from
  the front, the indices \<open>-n\<close> to \<open>-1\<close> from the back, and every other index raises
  \<^verbatim>\<open>IndexError\<close>.
\<close>

definition np_index :: "'a list \<Rightarrow> int \<Rightarrow> error + 'a" where
  "np_index a i =
     (if 0 \<le> i \<and> i < int (length a) then Inr (a ! nat i)
      else if - int (length a) \<le> i \<and> i < 0 then Inr (a ! nat (i + int (length a)))
      else Inl IndexError)"

text \<open>\<^verbatim>\<open>np.linspace(start, stop, num)\<close>: \<open>num\<close> points, the end point included.\<close>

definition linspace :: "real \<Rightarrow> real \<Rightarrow> nat \<Rightarrow> real list" where
  "linspace start stop num =
     map (\<lambda>i. start + real i * ((stop - start) / real (num - 1))) [0..<num]"

text \<open>
  One loop of the search, over the indices still to visit. The four conditions are
  evaluated from left to right and the evaluation stops at the first that fails, so
  the neighbour \<open>wav_interp[ii + d]\<close> is read only when the value at \<open>ii\<close> is below
  the half level. The first loop looks at the neighbour \<open>d = -1\<close> with the lower margin
  \<open>0.001\<close>, the second at the neighbour \<open>d = 1\<close> with the lower margin \<open>0.005\<close>; the
  upper margin is \<open>0.005\<close> in both. The result is the index at which the loop breaks,
  or \<open>None\<close> when it runs to its end.
\<close>

fun scan :: "(real \<Rightarrow> real) \<Rightarrow> real \<Rightarrow> real list \<Rightarrow> real \<Rightarrow> real \<Rightarrow> int \<Rightarrow> real \<Rightarrow> nat list
    \<Rightarrow> error + nat option" where
  "scan T_interp half_level wav_interp wmin wmax d margin [] = Inr None"
| "scan T_interp half_level wav_interp wmin wmax d margin (ii # rest) =
     (case np_index wav_interp (int ii) of
        Inl e \<Rightarrow> Inl e
      | Inr x \<Rightarrow>
          if \<not> T_interp x < half_level
          then scan T_interp half_level wav_interp wmin wmax d margin rest
          else (case np_index wav_interp (int ii + d) of
                  Inl e \<Rightarrow> Inl e
                | Inr y \<Rightarrow>
                    if T_interp y > half_level \<and> x > wmin + margin \<and> x < wmax - 5 / 1000
                    then Inr (Some ii)
                    else scan T_interp half_level wav_interp wmin wmax d margin rest))"

definition first_scan :: "(real \<Rightarrow> real) \<Rightarrow> real \<Rightarrow> real list \<Rightarrow> real \<Rightarrow> real \<Rightarrow> error + nat option" where
  "first_scan T_interp half_level wav_interp wmin wmax =
     scan T_interp half_level wav_interp wmin wmax (- 1) (1 / 1000) [0..<length wav_interp]"

definition second_scan :: "(real \<Rightarrow> real) \<Rightarrow> real \<Rightarrow> real list \<Rightarrow> real \<Rightarrow> real \<Rightarrow> error + nat option" where
  "second_scan T_interp half_level wav_interp wmin wmax =
     scan T_interp half_level wav_interp wmin wmax 1 (5 / 1000) [0..<length wav_interp]"

text \<open>
  The conditions of the two loops (lines 62 and 68) at an index whose neighbour exists.
  In the first loop the neighbour of index 0 is the last point of the grid, as
  \<open>wav_interp[-1]\<close> is. The margins are the numbers \<open>0.001\<close> and \<open>0.005\<close>, added to
  the least and taken from the greatest wavelength.
\<close>

definition left_crossing_at :: "(real \<Rightarrow> real) \<Rightarrow> real \<Rightarrow> real list \<Rightarrow> real \<Rightarrow> real \<Rightarrow> nat \<Rightarrow> bool" where
  "left_crossing_at T_interp half_level wav_interp wmin wmax ii =
     (T_interp (wav_interp ! ii) < half_level
      \<and> T_interp (wav_interp ! (if ii = 0 then length wav_interp - 1 else ii - 1)) > half_level
      \<and> wav_interp ! ii > wmin + 1 / 1000
      \<and> wav_interp ! ii < wmax - 5 / 1000)"

definition right_crossing_at :: "(real \<Rightarrow> real) \<Rightarrow> real \<Rightarrow> real list \<Rightarrow> real \<Rightarrow> real \<Rightarrow> nat \<Rightarrow> bool" where
  "right_crossing_at T_interp half_level wav_interp wmin wmax ii =
     (T_interp (wav_interp ! ii) < half_level
      \<and> T_interp (wav_interp ! (ii + 1)) > half_level
      \<and> wav_interp ! ii > wmin + 5 / 1000
      \<and> wav_interp ! ii < wmax - 5 / 1000)"

text \<open>
  \<^verbatim>\<open>int(np.round(np.average([i, j])))\<close>: the mean of two indices is a whole number or
  a whole number and a half, and NumPy rounds a half to the even neighbour.
\<close>

definition peak_index :: "nat \<Rightarrow> nat \<Rightarrow> nat" where
  "peak_index i j =
     (let k = i + j; m = k div 2
      in if even k then m else if even m then m else m + 1)"

text \<open>
  \<^verbatim>\<open>find_FWHM\<close> (lines 43 to 91). \<open>CubicSpline\<close> stands for SciPy's constructor,
  which returns the interpolant of the samples or raises; the plotting calls are left
  out. An index that a loop does not set keeps its initial value 0.
\<close>

definition find_FWHM ::
  "(real list \<Rightarrow> real list \<Rightarrow> error + (real \<Rightarrow> real)) \<Rightarrow> real list \<Rightarrow> real list \<Rightarrow> error + real \<times> real" where
  "find_FWHM CubicSpline wav T =
     (case np_min wav of
        Inl e \<Rightarrow> Inl e
      | Inr wmin \<Rightarrow>
     (case np_max wav of
        Inl e \<Rightarrow> Inl e
      | Inr wmax \<Rightarrow>
     (let wav_interp = linspace wmin wmax 1000
      in case CubicSpline wav T of
        Inl e \<Rightarrow> Inl e
      | Inr T_interp \<Rightarrow>
     (case np_min (map T_interp wav_interp) of
        Inl e \<Rightarrow> Inl e
      | Inr mini \<Rightarrow>
     (let half_level = 5 / 10 + 5 / 10 * mini
      in case first_scan T_interp half_level wav_interp wmin wmax of
        Inl e \<Rightarrow> Inl e
      | Inr r0 \<Rightarrow>
     (case second_scan T_interp half_level wav_interp wmin wmax of
        Inl e \<Rightarrow> Inl e
      | Inr r1 \<Rightarrow>
     (let i0 = (case r0 of None \<Rightarrow> 0 | Some i \<Rightarrow> i);
          i1 = (case r1 of None \<Rightarrow> 0 | Some i \<Rightarrow> i)
      in case np_index wav_interp (int i1) of
        Inl e \<Rightarrow> Inl e
      | Inr w1 \<Rightarrow>
     (case np_index wav_interp (int i0) of
        Inl e \<Rightarrow> Inl e
      | Inr w0 \<Rightarrow>
     (case np_index wav_interp (int (peak_index i0 i1)) of
        Inl e \<Rightarrow> Inl e
      | Inr peak_wav \<Rightarrow> Inr (w1 - w0, peak_wav))))))))))"

section \<open>The crossing search in the words of the specification\<close>

text \<open>
  The left crossing as the specification describes it: the first index of the grid at
  which the interpolant passes from above the half level to below it, inside a margin
  that excludes the first 0.1 percent and the last 0.5 percent of the wavelength span.
  The right crossing: the first index at which it passes from below back above, inside a
  margin that excludes the first and the last 0.5 percent of the span.
\<close>

definition spec_left_crossing :: "(real \<Rightarrow> real) \<Rightarrow> real \<Rightarrow> real list \<Rightarrow> real \<Rightarrow> real \<Rightarrow> nat option" where
  "spec_left_crossing T_interp half_level wav_interp wmin wmax =
     List.find (\<lambda>ii. 0 < ii
                 \<and> T_interp (wav_interp ! (ii - 1)) > half_level
                 \<and> T_interp (wav_interp ! ii) < half_level
                 \<and> wav_interp ! ii > wmin + 1 / 1000 * (wmax - wmin)
                 \<and> wav_interp ! ii < wmax - 5 / 1000 * (wmax - wmin))
       [0..<length wav_interp]"

definition spec_right_crossing :: "(real \<Rightarrow> real) \<Rightarrow> real \<Rightarrow> real list \<Rightarrow> real \<Rightarrow> real \<Rightarrow> nat option" where
  "spec_right_crossing T_interp half_level wav_interp wmin wmax =
     List.find (\<lambda>ii. ii + 1 < length wav_interp
                 \<and> T_interp (wav_interp ! ii) < half_level
                 \<and> T_interp (wav_interp ! (ii + 1)) > half_level
                 \<and> wav_interp ! ii > wmin + 5 / 1000 * (wmax - wmin)
                 \<and> wav_interp ! ii < wmax - 5 / 1000 * (wmax - wmin))
       [0..<length wav_interp]"

section \<open>Concrete inputs\<close>

text \<open>
  A run without a configuration file, in a directory that holds the geometry file
  \<^verbatim>\<open>device.gds\<close> and a second geometry file \<^verbatim>\<open>locked.gds\<close> that may not be read.
\<close>

definition bare_env :: env where
  "bare_env =
     \<lparr>config_json = ConfigMissing, now = ''20240101120000'',
      gds_importable = (\<lambda>_. True),
      engine = (\<lambda>_. Inr (VDict [(''status'', VStr ''done'')]))\<rparr>"

definition bare_world :: world where
  "bare_world =
     \<lparr>files = {''device.gds'', ''locked.gds''}, dirs = {}, unreadable = {''locked.gds''},
      open_fds = {0, 1, 2}, json_files = (\<lambda>_. None), engine_calls = [], stdin = []\<rparr>"

text \<open>The same run when the operator interrupts the engine while it works.\<close>

definition interrupted_env :: env where
  "interrupted_env =
     \<lparr>config_json = ConfigMissing, now = ''20240101120000'',
      gds_importable = (\<lambda>_. True), engine = (\<lambda>_. Inl KeyboardInterrupt)\<rparr>"

text \<open>The value that a resolution stores under a key, or the error of the resolution.\<close>

definition resolved_value ::
  "(string \<Rightarrow> pydict) \<Rightarrow> env \<Rightarrow> world \<Rightarrow> pydict \<Rightarrow> string \<Rightarrow> error + pyval" where
  "resolved_value defaults E w parameters k =
     (case resolve defaults E w parameters of Inl e \<Rightarrow> Inl e | Inr p \<Rightarrow> dict_item p k)"

text \<open>
  The same directory after an earlier run has left the simulation file
  \<^verbatim>\<open>data/out_FDTD.fsp\<close>, with the given input waiting at the console.
\<close>

definition occupied_world :: "console_event list \<Rightarrow> world" where
  "occupied_world inputs =
     \<lparr>files = {''device.gds'', ''locked.gds'', ''data/out_FDTD.fsp''}, dirs = {''data''},
      unreadable = {''locked.gds''}, open_fds = {0, 1, 2}, json_files = (\<lambda>_. None),
      engine_calls = [], stdin = inputs\<rparr>"

text \<open>
  Raw results: a Tidy3D monitor whose frequencies were given in descending order, a
  Lumerical port that received no power, and a Lumerical port and a Tidy3D monitor of
  the usual shape (frequencies ascending, so wavelengths descending).
\<close>

definition reversed_monitor :: "string \<Rightarrow> error + (string \<times> mode_data) list" where
  "reversed_monitor fname =
     Inr [(''o2 mode'', \<lparr>freqs = [2 * 10 ^ 14, 10 ^ 14], amps_plus = [[1], [1]]\<rparr>)]"

definition dark_port :: "string \<Rightarrow> error + lumerical_result" where
  "dark_port fname =
     Inr \<lparr>T_net = [[0], [0]], lambda = [[156 / 10 ^ 8], [155 / 10 ^ 8]]\<rparr>"

definition ring_port :: "string \<Rightarrow> error + lumerical_result" where
  "ring_port fname =
     Inr \<lparr>T_net = [[8 / 10, 1 / 10], [4 / 10, 1 / 10], [6 / 10, 1 / 10]],
          lambda = [[156 / 10 ^ 8], [155 / 10 ^ 8], [154 / 10 ^ 8]]\<rparr>"

definition ring_monitor :: "string \<Rightarrow> error + (string \<times> mode_data) list" where
  "ring_monitor fname =
     Inr [(''o2 mode'', \<lparr>freqs = [19 * 10 ^ 13, 20 * 10 ^ 13],
                          amps_plus = [[Complex 0 1, 0], [Complex (1 / 2) 0, 0]]\<rparr>)]"

text \<open>
  Interpolants of sampled spectra. Samples that lie on a line have that line as their
  cubic spline: a flat spectrum; a transmission that falls from 1 to 0.7 over the
  wavelengths 1.50 to 1.56; one that rises from 0.7 to 1 over the same wavelengths; and
  ones that fall and rise in that way over the narrower range 1.500 to 1.509.
\<close>

definition flat_spline :: "real list \<Rightarrow> real list \<Rightarrow> error + (real \<Rightarrow> real)" where
  "flat_spline wav T = Inr (\<lambda>x. 1)"

definition falling_interp :: "real \<Rightarrow> real" where
  "falling_interp x = 1 - 5 * (x - 15 / 10)"

definition falling_spline :: "real list \<Rightarrow> real list \<Rightarrow> error + (real \<Rightarrow> real)" where
  "falling_spline wav T = Inr falling_interp"

definition rising_interp :: "real \<Rightarrow> real" where
  "rising_interp x = 7 / 10 + 5 * (x - 15 / 10)"

definition narrow_interp :: "real \<Rightarrow> real" where
  "narrow_interp x = 1 - 100 / 3 * (x - 15 / 10)"

definition narrow_rising_interp :: "real \<Rightarrow> real" where
  "narrow_rising_interp x = 7 / 10 + 100 / 3 * (x - 15 / 10)"

section \<open>The layered merge\<close>

lemma dict_update_simps:
  "dict_update p [] = p"
  "dict_update p ((k, v) # m) = dict_update (AList.update k v p) m"
  by (simp_all add: dict_update_def)

lemma dict_update_other:
  "k \<notin> fst ` set m \<Longrightarrow> map_of (dict_update p m) k = map_of p k"
  by (induction m arbitrary: p) (auto simp: dict_update_simps update_conv')

lemma dict_update_wins:
  "distinct (map fst m) \<Longrightarrow> (k, v) \<in> set m \<Longrightarrow> map_of (dict_update p m) k = Some v"
proof (induction m arbitrary: p)
  case Nil
  then show ?case by simp
next
  case (Cons a m)
  obtain k' v' where a: "a = (k', v')" by (cases a)
  show ?case
  proof (cases "(k, v) \<in> set m")
    case True
    with Cons show ?thesis by (simp add: a dict_update_simps)
  next
    case False
    with Cons.prems have kv: "k' = k" "v' = v" by (auto simp: a)
    from Cons.prems have "k \<notin> fst ` set m" by (auto simp: a kv)
    then show ?thesis by (simp add: a kv dict_update_simps dict_update_other update_conv')
  qed
qed

lemma merge_layers_wins:
  assumes "merge_layers defaults E parameters = Inr p"
    and "distinct (map fst parameters)" and "(k, v) \<in> set parameters"
  shows "map_of p k = Some v"
  using assms by (auto simp: merge_layers_def dict_update_wins split: config_file.splits)

lemma resolve_shape:
  assumes "resolve defaults E w parameters = Inr p"
  shows "\<exists>p2 fn. merge_layers defaults E parameters = Inr p2
           \<and> map_of p2 ''file_name'' = Some (VStr fn)
           \<and> p = AList.update ''gds_file'' (VStr (fn @ ''.gds'')) p2"
  using assms
  by (auto simp: resolve_def dict_item_def
           split: sum.splits bool.splits pyval.splits option.splits)

text \<open>
  C3, as amended. When the resolution succeeds for a caller dictionary (whose keys are
  distinct, as in every Python dictionary), every key of the caller other than
  \<^verbatim>\<open>gds_file\<close> holds exactly the caller's value in the resolved dictionary, whatever
  the configuration and the defaults say; the key \<^verbatim>\<open>gds_file\<close> holds the resolved
  \<^verbatim>\<open>file_name\<close> followed by \<^verbatim>\<open>.gds\<close>.
\<close>

theorem resolve_override_wins:
  assumes "resolve defaults E w parameters = Inr p"
    and "distinct (map fst parameters)"
    and "(k, v) \<in> set parameters"
  shows "(k \<noteq> ''gds_file'' \<longrightarrow> dict_item p k = Inr v)
       \<and> (\<exists>fn. dict_item p ''file_name'' = Inr (VStr fn)
               \<and> dict_item p ''gds_file'' = Inr (VStr (fn @ ''.gds'')))"
proof -
  from resolve_shape[OF assms(1)] obtain p2 fn
    where m: "merge_layers defaults E parameters = Inr p2"
      and f: "map_of p2 ''file_name'' = Some (VStr fn)"
      and p: "p = AList.update ''gds_file'' (VStr (fn @ ''.gds'')) p2"
    by blast
  from merge_layers_wins[OF m assms(2,3)] have "map_of p2 k = Some v" .
  then have "k \<noteq> ''gds_file'' \<longrightarrow> dict_item p k = Inr v"
    by (simp add: p dict_item_def update_conv')
  moreover have "dict_item p ''file_name'' = Inr (VStr fn)"
    using f by (simp add: p dict_item_def update_conv')
  moreover have "dict_item p ''gds_file'' = Inr (VStr (fn @ ''.gds''))"
    by (simp add: p dict_item_def update_conv')
  ultimately show ?thesis by blast
qed

theorem resolve_override_wins_witness:
  "resolved_value lumerical_defaults bare_env bare_world
     [(''predefined_gds'', VStr ''device.gds''), (''wavelength'', VFloat (155 / 100))]
     ''wavelength'' = Inr (VFloat (155 / 100))"
proof -
  let ?ps = "[(''predefined_gds'', VStr ''device.gds''), (''wavelength'', VFloat (155 / 100))]"
  have "\<exists>p. resolve lumerical_defaults bare_env bare_world ?ps = Inr p"
    by (simp add: resolve_def merge_layers_def bare_env_def bare_world_def
        lumerical_defaults_def dict_update_simps dict_get_def dict_item_def
        validate_file_path_def)
  then obtain p where r: "resolve lumerical_defaults bare_env bare_world ?ps = Inr p" ..
  have d: "distinct (map fst ?ps)" by simp
  have i: "(''wavelength'', VFloat (155 / 100)) \<in> set ?ps" by simp
  from resolve_override_wins[OF r d i] have "dict_item p ''wavelength'' = Inr (VFloat (155 / 100))"
    by simp
  with r show ?thesis by (simp add: resolved_value_def)
qed

text \<open>
  The claim as written fails for the key \<^verbatim>\<open>gds_file\<close>: the caller's value is
  replaced by the derived path.
\<close>

theorem resolve_override_gds_file_counterexample:
  "resolved_value lumerical_defaults bare_env bare_world
     [(''predefined_gds'', VStr ''device.gds''), (''file_name'', VStr ''data/out''),
      (''gds_file'', VStr ''mine.gds'')]
     ''gds_file'' = Inr (VStr ''data/out.gds'')
   \<and> Inr (VStr ''data/out.gds'') \<noteq> (Inr (VStr ''mine.gds'') :: error + pyval)"
  by (simp add: resolved_value_def resolve_def merge_layers_def bare_env_def bare_world_def
      lumerical_defaults_def dict_update_simps dict_get_def dict_item_def
      validate_file_path_def)

section \<open>The JSON file of the resolved parameters\<close>

text \<open>
  C9. The code creates the directory of the JSON file with
  \<^verbatim>\<open>os.makedirs(os.path.dirname(json_name), exist_ok=True)\<close>. For a name without a
  directory part the directory name is empty and the call fails: nothing is written,
  and \<^verbatim>\<open>write_to_json\<close> raises \<^verbatim>\<open>FileNotFoundError\<close>.
\<close>

theorem write_to_json_bare_name_fails:
  "write_to_json w p ''out.json'' = (Inl FileNotFoundError, w)"
  by (simp add: write_to_json_def os_makedirs_def dirname_def)

text \<open>
  C5. With \<^verbatim>\<open>flag_run_simulation = 0\<close>, a geometry file that exists and can be read,
  no earlier simulation file and the output name \<^verbatim>\<open>out\<close>, the function fails in
  \<^verbatim>\<open>write_to_json\<close> before it copies the geometry: the state is unchanged, so there is
  no \<^verbatim>\<open>out.gds\<close>.
\<close>

theorem simulate_flag0_bare_name_fails:
  "lumerical_simulate_predefined_gds bare_env
     [(''predefined_gds'', VStr ''device.gds''), (''file_name'', VStr ''out''),
      (''flag_run_simulation'', VInt 0)] bare_world
   = (Inl FileNotFoundError, bare_world)
   \<and> ''out.gds'' \<notin> files bare_world"
  by (simp add: lumerical_simulate_predefined_gds_def simulate_def resolve_def merge_layers_def
      bare_env_def bare_world_def lumerical_defaults_def dict_update_simps dict_get_def
      dict_item_def validate_file_path_def write_to_json_def os_makedirs_def dirname_def)

text \<open>
  With an output name that has a directory part, the same parameters pass the JSON file
  and the copy of the geometry, and the function hands the resolved dictionary, in which
  \<^verbatim>\<open>flag_run_simulation\<close> is 0, to \<^verbatim>\<open>fdtd_from_gds\<close>: the flag is not looked at
  before the call.
\<close>

lemma simulate_flag0_with_directory:
  "\<exists>p w'. lumerical_simulate_predefined_gds bare_env
            [(''predefined_gds'', VStr ''device.gds''), (''file_name'', VStr ''data/out''),
             (''flag_run_simulation'', VInt 0)] bare_world
          = (engine bare_env p, w')
        \<and> engine_calls w' = [p]
        \<and> dict_item p ''flag_run_simulation'' = Inr (VInt 0)
        \<and> ''data/out.gds'' \<in> files w' \<and> ''data/out.json'' \<in> files w'"
  by (simp add: lumerical_simulate_predefined_gds_def simulate_def resolve_def merge_layers_def
      bare_env_def bare_world_def lumerical_defaults_def dict_update_simps dict_get_def
      dict_item_def validate_file_path_def write_to_json_def os_makedirs_def dirname_def
      artifact_gate_def fdtd_from_gds_def)

section \<open>Validation of the geometry path\<close>

lemma simulate_resolve_error:
  "resolve defaults E w parameters = Inl e \<Longrightarrow> simulate defaults suffix E parameters w = (Inl e, w)"
  by (simp add: simulate_def)

text \<open>
  C7, as amended. After the layered merge, the function fails with \<^verbatim>\<open>ValueError\<close>
  when the value under \<^verbatim>\<open>predefined_gds\<close> is empty (false in Python's sense); for a
  non-empty path it fails with \<^verbatim>\<open>FileNotFoundError\<close> when nothing exists at the path,
  and with \<^verbatim>\<open>PermissionError\<close> when the path exists but may not be read. In all three
  cases nothing has been written.
\<close>

theorem geometry_path_validation:
  assumes "merge_layers defaults E parameters = Inr p"
  shows "(truthy (dict_get p ''predefined_gds'') = Inr False
            \<longrightarrow> simulate defaults suffix E parameters w = (Inl ValueError, w))
       \<and> (\<forall>path. dict_get p ''predefined_gds'' = VStr path \<and> path \<noteq> []
            \<longrightarrow> (path \<notin> files w \<and> path \<notin> dirs w
                   \<longrightarrow> simulate defaults suffix E parameters w = (Inl FileNotFoundError, w))
              \<and> ((path \<in> files w \<or> path \<in> dirs w) \<and> path \<in> unreadable w
                   \<longrightarrow> simulate defaults suffix E parameters w = (Inl PermissionError, w)))"
proof -
  have a: "truthy (dict_get p ''predefined_gds'') = Inr False
            \<longrightarrow> resolve defaults E w parameters = Inl ValueError"
    using assms by (simp add: resolve_def)
  have b: "resolve defaults E w parameters = Inl FileNotFoundError"
    if "dict_get p ''predefined_gds'' = VStr path" "path \<noteq> []" "path \<notin> files w" "path \<notin> dirs w"
    for path
    using assms that
    by (auto simp: resolve_def dict_get_def dict_item_def validate_file_path_def
             split: option.splits)
  have c: "resolve defaults E w parameters = Inl PermissionError"
    if "dict_get p ''predefined_gds'' = VStr path" "path \<noteq> []"
       "path \<in> files w \<or> path \<in> dirs w" "path \<in> unreadable w"
    for path
    using assms that
    by (auto simp: resolve_def dict_get_def dict_item_def validate_file_path_def
             split: option.splits)
  show ?thesis using a b c by (auto simp: simulate_resolve_error)
qed

theorem geometry_path_validation_witness:
  "simulate lumerical_defaults ''_FDTD.fsp'' bare_env [(''predefined_gds'', VStr [])] bare_world
     = (Inl ValueError, bare_world)
   \<and> simulate lumerical_defaults ''_FDTD.fsp'' bare_env
       [(''predefined_gds'', VStr ''missing.gds'')] bare_world
     = (Inl FileNotFoundError, bare_world)
   \<and> simulate tidy3d_defaults ''_results.hdf5'' bare_env
       [(''predefined_gds'', VStr ''locked.gds'')] bare_world
     = (Inl PermissionError, bare_world)"
proof -
  have m: "\<exists>p. merge_layers defaults bare_env [(''predefined_gds'', VStr g)] = Inr p
             \<and> dict_get p ''predefined_gds'' = VStr g"
    if "map_of (defaults (now bare_env)) ''predefined_gds'' \<noteq> None" for defaults g
    using that
    by (auto simp: merge_layers_def bare_env_def dict_update_simps dict_get_def update_conv')
  have l: "map_of (lumerical_defaults (now bare_env)) ''predefined_gds'' \<noteq> None"
    by (simp add: lumerical_defaults_def)
  have t: "map_of (tidy3d_defaults (now bare_env)) ''predefined_gds'' \<noteq> None"
    by (simp add: tidy3d_defaults_def)
  from m[of lumerical_defaults "[]", OF l] obtain p1 where p1: "merge_layers lumerical_defaults bare_env
      [(''predefined_gds'', VStr [])] = Inr p1" "dict_get p1 ''predefined_gds'' = VStr []"
    by blast
  from m[of lumerical_defaults "''missing.gds''", OF l] obtain p2 where p2: "merge_layers lumerical_defaults bare_env
      [(''predefined_gds'', VStr ''missing.gds'')] = Inr p2"
      "dict_get p2 ''predefined_gds'' = VStr ''missing.gds''"
    by blast
  from m[of tidy3d_defaults "''locked.gds''", OF t] obtain p3 where p3: "merge_layers tidy3d_defaults bare_env
      [(''predefined_gds'', VStr ''locked.gds'')] = Inr p3"
      "dict_get p3 ''predefined_gds'' = VStr ''locked.gds''"
    by blast
  have "simulate lumerical_defaults ''_FDTD.fsp'' bare_env [(''predefined_gds'', VStr [])]
          bare_world = (Inl ValueError, bare_world)"
    using geometry_path_validation[OF p1(1), of "''_FDTD.fsp''" bare_world] p1(2) by simp
  moreover have "simulate lumerical_defaults ''_FDTD.fsp'' bare_env
          [(''predefined_gds'', VStr ''missing.gds'')] bare_world
          = (Inl FileNotFoundError, bare_world)"
    using geometry_path_validation[OF p2(1), of "''_FDTD.fsp''" bare_world] p2(2)
    by (simp add: bare_world_def)
  moreover have "simulate tidy3d_defaults ''_results.hdf5'' bare_env
          [(''predefined_gds'', VStr ''locked.gds'')] bare_world
          = (Inl PermissionError, bare_world)"
    using geometry_path_validation[OF p3(1), of "''_results.hdf5''" bare_world] p3(2)
    by (simp add: bare_world_def)
  ultimately show ?thesis by blast
qed

text \<open>
  The claim as written fails for a geometry file that exists and may not be read: the
  error is \<^verbatim>\<open>PermissionError\<close>, which is not a \<^verbatim>\<open>FileNotFoundError\<close>.
\<close>

theorem unreadable_geometry_counterexample:
  "lumerical_simulate_predefined_gds bare_env [(''predefined_gds'', VStr ''locked.gds'')]
     bare_world = (Inl PermissionError, bare_world)
   \<and> PermissionError \<noteq> FileNotFoundError"
  by (simp add: lumerical_simulate_predefined_gds_def simulate_def resolve_def merge_layers_def
      bare_env_def bare_world_def lumerical_defaults_def dict_update_simps dict_get_def
      dict_item_def validate_file_path_def)

section \<open>The gate before the engine\<close>

lemma confirm_loop_stdin:
  "confirm_loop E p es (w\<lparr>stdin := x\<rparr>) = confirm_loop E p es w"
  by (induction E p es w rule: confirm_loop.induct) (simp_all add: fdtd_from_gds_def Let_def)

text \<open>
  C2, as amended. When nothing exists at the path of the simulation file, the engine is
  called at once and the console is not read. When something exists there, the next
  console event decides, and a line of input is compared after it has been stripped of
  surrounding white space and put in lower case: when that gives \<^verbatim>\<open>y\<close>, the engine is
  called and its result returned, except that an interrupt raised during the call is
  caught and \<^verbatim>\<open>None\<close> returned (the engine has been called then); when it gives
  \<^verbatim>\<open>n\<close>, and when an interrupt is raised at the prompt, \<^verbatim>\<open>None\<close> is returned and
  the list of engine calls stays as it was; any other line is dropped and the gate asks
  again. The cases of an event exclude each other, so each outcome occurs exactly in
  its case.
\<close>

theorem artifact_gate_decision:
  "(simulation_file \<notin> files w \<and> simulation_file \<notin> dirs w
      \<longrightarrow> artifact_gate E p simulation_file w
          = (engine E p, w\<lparr>engine_calls := engine_calls w @ [p]\<rparr>))
   \<and> (simulation_file \<in> files w \<or> simulation_file \<in> dirs w \<longrightarrow>
       (\<forall>s rest. stdin w = Line s # rest \<longrightarrow>
          (lower (strip s) = ''y'' \<longrightarrow>
             artifact_gate E p simulation_file w
             = (if engine E p = Inl KeyboardInterrupt then Inr VNone else engine E p,
                w\<lparr>stdin := rest, engine_calls := engine_calls w @ [p]\<rparr>))
        \<and> (lower (strip s) = ''n'' \<longrightarrow>
             artifact_gate E p simulation_file w = (Inr VNone, w\<lparr>stdin := rest\<rparr>))
        \<and> (lower (strip s) \<noteq> ''y'' \<and> lower (strip s) \<noteq> ''n'' \<longrightarrow>
             artifact_gate E p simulation_file w
             = artifact_gate E p simulation_file (w\<lparr>stdin := rest\<rparr>)))
     \<and> (\<forall>rest. stdin w = Interrupt # rest \<longrightarrow>
          artifact_gate E p simulation_file w = (Inr VNone, w\<lparr>stdin := rest\<rparr>)))"
  by (auto simp: artifact_gate_def fdtd_from_gds_def confirm_loop_stdin split: sum.splits)

theorem artifact_gate_decision_witness:
  "artifact_gate bare_env [] ''data/out_FDTD.fsp'' bare_world
     = (Inr (VDict [(''status'', VStr ''done'')]), bare_world\<lparr>engine_calls := [[]]\<rparr>)
   \<and> artifact_gate bare_env [] ''data/out_FDTD.fsp'' (occupied_world [Line ''y''])
     = (Inr (VDict [(''status'', VStr ''done'')]), (occupied_world [])\<lparr>engine_calls := [[]]\<rparr>)
   \<and> artifact_gate interrupted_env [] ''data/out_FDTD.fsp'' (occupied_world [Line ''y''])
     = (Inr VNone, (occupied_world [])\<lparr>engine_calls := [[]]\<rparr>)
   \<and> artifact_gate bare_env [] ''data/out_FDTD.fsp'' (occupied_world [Line ''n''])
     = (Inr VNone, occupied_world [])
   \<and> artifact_gate bare_env [] ''data/out_FDTD.fsp'' (occupied_world [Interrupt, Line ''y''])
     = (Inr VNone, occupied_world [Line ''y''])
   \<and> artifact_gate bare_env [] ''data/out_FDTD.fsp'' (occupied_world [Line ''maybe'', Line ''n''])
     = artifact_gate bare_env [] ''data/out_FDTD.fsp'' (occupied_world [Line ''n''])"
proof -
  have y: "lower (strip ''y'') = ''y''" by code_simp
  have n: "lower (strip ''n'') = ''n''" by code_simp
  have o: "lower (strip ''maybe'') \<noteq> ''y'' \<and> lower (strip ''maybe'') \<noteq> ''n''" by code_simp
  have upd: "(occupied_world es)\<lparr>stdin := rest\<rparr> = occupied_world rest" for es rest
    by (simp add: occupied_world_def)
  have ex: "''data/out_FDTD.fsp'' \<in> files (occupied_world es)" for es
    by (simp add: occupied_world_def)
  have nex: "''data/out_FDTD.fsp'' \<notin> files bare_world \<and> ''data/out_FDTD.fsp'' \<notin> dirs bare_world"
    by (simp add: bare_world_def)
  have st: "stdin (occupied_world es) = es" "engine_calls (occupied_world es) = []" for es
    by (simp_all add: occupied_world_def)
  have e: "engine bare_env [] = Inr (VDict [(''status'', VStr ''done'')])"
    "engine interrupted_env [] = Inl KeyboardInterrupt"
    "engine_calls bare_world = []"
    by (simp_all add: bare_env_def interrupted_env_def bare_world_def)
  show ?thesis
    using artifact_gate_decision[of "''data/out_FDTD.fsp''" bare_world bare_env "[]"]
      artifact_gate_decision[of "''data/out_FDTD.fsp''" "occupied_world [Line ''y'']" bare_env "[]"]
      artifact_gate_decision[of "''data/out_FDTD.fsp''" "occupied_world [Line ''y'']"
        interrupted_env "[]"]
      artifact_gate_decision[of "''data/out_FDTD.fsp''" "occupied_world [Line ''n'']" bare_env "[]"]
      artifact_gate_decision[of "''data/out_FDTD.fsp''" "occupied_world [Interrupt, Line ''y'']"
        bare_env "[]"]
      artifact_gate_decision[of "''data/out_FDTD.fsp''" "occupied_world [Line ''maybe'', Line ''n'']"
        bare_env "[]"]
    by (simp add: y n o upd ex nex st e)
qed

text \<open>
  The claim as written fails for an answer other than \<^verbatim>\<open>y\<close> that the code takes for
  it: the line of a capital Y between two blanks is not the input \<^verbatim>\<open>y\<close>, and the gate
  does not ask again but calls the engine and returns its result.
\<close>

theorem artifact_gate_capital_y_counterexample:
  "'' Y '' \<noteq> ''y''
   \<and> artifact_gate bare_env [] ''data/out_FDTD.fsp'' (occupied_world [Line '' Y '', Line ''n''])
     = (Inr (VDict [(''status'', VStr ''done'')]),
        (occupied_world [Line ''n''])\<lparr>engine_calls := [[]]\<rparr>)"
proof -
  have r: "lower (strip '' Y '') = ''y''" by code_simp
  show ?thesis
    by (simp add: artifact_gate_def fdtd_from_gds_def occupied_world_def bare_env_def r)
qed

section \<open>Complex values in the JSON file\<close>




section \<open>The two spectrum readers\<close>

lemma fold_max_Max: "fold max xs (x :: real) = Max (set (x # xs))"
  by (simp only: Max.set_eq_fold)

lemma np_max_is_Max: "np_max xs = Inr m \<Longrightarrow> xs \<noteq> [] \<and> m = Max (set xs)"
  by (cases xs) (auto simp only: np_max.simps fold_max_Max sum.inject sum.distinct list.distinct)

lemma np_max_f_Fin: "ys \<noteq> [] \<Longrightarrow> np_max_f (map Fin ys) = Inr (Fin (Max (set ys)))"
proof -
  have f: "fold (\<lambda>b a. np_maximum a b) (map Fin zs) (Fin y) = Fin (fold max zs y)" for zs y
    by (induction zs arbitrary: y) (auto simp: np_maximum_def max_def)
  assume "ys \<noteq> []"
  then obtain y zs where "ys = y # zs" by (cases ys) auto
  then show ?thesis by (simp only: list.map np_max_f.simps f fold_max_Max)
qed

lemma normalised_max_one:
  assumes "np_max xs = Inr m" and "0 < m"
  shows "np_max_f (rev (map (\<lambda>x. np_divide x m) xs)) = Inr (Fin 1)"
proof -
  from np_max_is_Max[OF assms(1)] have ne: "xs \<noteq> []" and m: "m = Max (set xs)" by auto
  have d: "rev (map (\<lambda>x. np_divide x m) xs) = map Fin (rev (map (\<lambda>x. x / m) xs))"
    using assms(2) by (simp add: np_divide_def rev_map)
  have "Max (set (rev (map (\<lambda>x. x / m) xs))) = 1"
  proof (rule Max_eqI)
    show "finite (set (rev (map (\<lambda>x. x / m) xs)))" by simp
    show "y \<le> 1" if "y \<in> set (rev (map (\<lambda>x. x / m) xs))" for y
    proof -
      from that obtain x where x: "x \<in> set xs" "y = x / m" by auto
      then have "x \<le> m" using m by simp
      with assms(2) x show ?thesis by simp
    qed
    have "m \<in> set xs" using m ne Max_in[of "set xs"] by simp
    then show "1 \<in> set (rev (map (\<lambda>x. x / m) xs))" using assms(2) by force
  qed
  with ne show ?thesis by (simp add: d np_max_f_Fin)
qed

lemma column0_map:
  "column0 (map (map f) rows) = (case column0 rows of Inl e \<Rightarrow> Inl e | Inr xs \<Rightarrow> Inr (map f xs))"
  by (induction rows rule: column0.induct) (auto split: sum.splits)

lemma lumerical_ascending:
  assumes "sorted_wrt (>) (wav0 :: real list)"
  shows "strictly_ascending (map Fin (rev (map (\<lambda>x. x * 10 ^ 6) wav0)))"
proof -
  have "sorted_wrt (\<lambda>x y. y * 10 ^ 6 < x * (10 ^ 6 :: real)) wav0"
    using assms by (rule sorted_wrt_mono_rel[rotated]) simp
  then show ?thesis
    by (simp add: strictly_ascending_def sorted_wrt_map sorted_wrt_rev)
qed

lemma tidy3d_ascending:
  assumes "sorted_wrt (<) (fs :: real list)" and "\<forall>f\<in>set fs. 0 < f"
  shows "strictly_ascending (rev (map (\<lambda>f. np_divide C_0 f) fs))"
proof -
  have c: "0 < C_0" by (simp add: C_0_def)
  have "sorted_wrt (\<lambda>x y. np_less (np_divide C_0 y) (np_divide C_0 x)) fs"
    using assms(1)
  proof (rule sorted_wrt_mono_rel[rotated])
    fix x y assume "x \<in> set fs" "y \<in> set fs" "x < y"
    with assms(2) have "0 < x" "0 < y" by auto
    with \<open>x < y\<close> c show "np_less (np_divide C_0 y) (np_divide C_0 x)"
      by (simp add: np_divide_def frac_less2)
  qed
  then show ?thesis
    by (simp add: strictly_ascending_def sorted_wrt_map sorted_wrt_rev)
qed

text \<open>
  C4, as amended. The readers reverse the order of the raw arrays and divide the power by
  its maximum. So for a Lumerical result whose wavelength column is strictly descending,
  and for a Tidy3D monitor whose frequencies are positive and strictly ascending, the
  returned wavelengths are strictly ascending; and when the power of the first mode has
  a positive maximum, the maximum of the returned power is exactly 1.
\<close>

theorem spectrum_readers_postcondition:
  "(getresult fname = Inr temp \<and> column0 (lambda temp) = Inr wav0 \<and> sorted_wrt (>) wav0
      \<and> column0 (T_net temp) = Inr T0 \<and> np_max T0 = Inr m \<and> 0 < m
    \<longrightarrow> (\<exists>wav T. read_lumerical_output getresult fname = Inr (wav, T)
            \<and> strictly_ascending wav \<and> np_max_f T = Inr (Fin 1)))
   \<and> (from_file fname' = Inr sim_data \<and> map_of sim_data ''o2 mode'' = Some md
      \<and> sorted_wrt (<) (freqs md) \<and> (\<forall>f\<in>set (freqs md). 0 < f)
      \<and> column0 (amps_plus md) = Inr a0 \<and> (\<exists>z\<in>set a0. z \<noteq> 0)
    \<longrightarrow> (\<exists>wav T. read_tidy3d_output from_file fname' = Inr (wav, T)
            \<and> strictly_ascending wav \<and> np_max_f T = Inr (Fin 1)))"
proof (intro conjI impI)
  assume a: "getresult fname = Inr temp \<and> column0 (lambda temp) = Inr wav0 \<and> sorted_wrt (>) wav0
      \<and> column0 (T_net temp) = Inr T0 \<and> np_max T0 = Inr m \<and> 0 < m"
  then have "read_lumerical_output getresult fname
             = Inr (map Fin (rev (map (\<lambda>x. x * 10 ^ 6) wav0)), rev (map (\<lambda>x. np_divide x m) T0))"
    by (simp add: read_lumerical_output_def)
  with a lumerical_ascending[of wav0] normalised_max_one[of T0 m]
  show "\<exists>wav T. read_lumerical_output getresult fname = Inr (wav, T)
            \<and> strictly_ascending wav \<and> np_max_f T = Inr (Fin 1)"
    by simp
next
  assume a: "from_file fname' = Inr sim_data \<and> map_of sim_data ''o2 mode'' = Some md
      \<and> sorted_wrt (<) (freqs md) \<and> (\<forall>f\<in>set (freqs md). 0 < f)
      \<and> column0 (amps_plus md) = Inr a0 \<and> (\<exists>z\<in>set a0. z \<noteq> 0)"
  let ?T = "map (\<lambda>z. (cmod z)\<^sup>2) a0"
  from a obtain z where z: "z \<in> set a0" "z \<noteq> 0" by blast
  then have ne: "?T \<noteq> []" by auto
  then obtain m where m: "np_max ?T = Inr m" by (cases ?T) auto
  from np_max_is_Max[OF m] have "m = Max (set ?T)" by simp
  moreover have "(cmod z)\<^sup>2 \<in> set ?T" using z by simp
  ultimately have "(cmod z)\<^sup>2 \<le> m" by simp
  moreover have "0 < (cmod z)\<^sup>2" using z by simp
  ultimately have pos: "0 < m" by linarith
  have "read_tidy3d_output from_file fname'
        = Inr (rev (map (\<lambda>f. np_divide C_0 f) (freqs md)), rev (map (\<lambda>x. np_divide x m) ?T))"
    using a m by (simp add: read_tidy3d_output_def read_mode_monitor_from_file_def column0_map)
  with a m pos tidy3d_ascending[of "freqs md"] normalised_max_one[of ?T m]
  show "\<exists>wav T. read_tidy3d_output from_file fname' = Inr (wav, T)
            \<and> strictly_ascending wav \<and> np_max_f T = Inr (Fin 1)"
    by simp
qed

text \<open>
  The claim as written fails on readable results: frequencies stored in descending
  order come back as descending wavelengths, and a power that is zero throughout comes
  back as not-a-number, whose maximum is not 1.
\<close>

theorem spectrum_readers_counterexample:
  "read_tidy3d_output reversed_monitor ''ring_results.hdf5''
     = Inr ([Fin (299792458 / 10 ^ 8), Fin (149896229 / 10 ^ 8)], [Fin 1, Fin 1])
   \<and> \<not> strictly_ascending [Fin (299792458 / 10 ^ 8), Fin (149896229 / 10 ^ 8)]
   \<and> read_lumerical_output dark_port ''ring_FDTD.fsp''
     = Inr ([Fin (155 / 100), Fin (156 / 100)], [NaN, NaN])
   \<and> np_max_f [NaN, NaN] \<noteq> Inr (Fin 1)"
  by (simp add: read_tidy3d_output_def read_mode_monitor_from_file_def reversed_monitor_def
      read_lumerical_output_def dark_port_def C_0_def np_divide_def strictly_ascending_def
      np_maximum_def)


theorem spectrum_readers_postcondition_witness:
  "(\<exists>wav T. read_lumerical_output ring_port ''ring_FDTD.fsp'' = Inr (wav, T)
       \<and> strictly_ascending wav \<and> np_max_f T = Inr (Fin 1))
   \<and> (\<exists>wav T. read_tidy3d_output ring_monitor ''ring_results.hdf5'' = Inr (wav, T)
       \<and> strictly_ascending wav \<and> np_max_f T = Inr (Fin 1))"
proof -
  let ?temp = "\<lparr>T_net = [[8 / 10, 1 / 10], [4 / 10, 1 / 10], [6 / 10, 1 / 10 :: real]],
                lambda = [[156 / 10 ^ 8], [155 / 10 ^ 8], [154 / 10 ^ 8 :: real]]\<rparr>"
  let ?md = "\<lparr>freqs = [19 * 10 ^ 13, 20 * 10 ^ 13 :: real],
              amps_plus = [[Complex 0 1, 0], [Complex (1 / 2) 0, 0]]\<rparr>"
  have l: "ring_port ''ring_FDTD.fsp'' = Inr ?temp
      \<and> column0 (lambda ?temp) = Inr [156 / 10 ^ 8, 155 / 10 ^ 8, 154 / 10 ^ 8]
      \<and> sorted_wrt (>) [156 / 10 ^ 8, 155 / 10 ^ 8, 154 / 10 ^ 8 :: real]
      \<and> column0 (T_net ?temp) = Inr [8 / 10, 4 / 10, 6 / 10]
      \<and> np_max [8 / 10, 4 / 10, 6 / 10] = Inr (8 / 10) \<and> (0 :: real) < 8 / 10"
    by (simp add: ring_port_def)
  have t: "ring_monitor ''ring_results.hdf5'' = Inr [(''o2 mode'', ?md)]
      \<and> map_of [(''o2 mode'', ?md)] ''o2 mode'' = Some ?md
      \<and> sorted_wrt (<) (freqs ?md) \<and> (\<forall>f\<in>set (freqs ?md). 0 < f)
      \<and> column0 (amps_plus ?md) = Inr [Complex 0 1, Complex (1 / 2) 0]
      \<and> (\<exists>z\<in>set [Complex 0 1, Complex (1 / 2) 0]. z \<noteq> 0)"
    by (simp add: ring_monitor_def complex_eq_iff)
  from spectrum_readers_postcondition[where getresult = ring_port and fname = "''ring_FDTD.fsp''"
      and temp = ?temp and ?wav0.0 = "[156 / 10 ^ 8, 155 / 10 ^ 8, 154 / 10 ^ 8]"
      and ?T0.0 = "[8 / 10, 4 / 10, 6 / 10]" and m = "8 / 10"
      and from_file = ring_monitor and fname' = "''ring_results.hdf5''"
      and sim_data = "[(''o2 mode'', ?md)]" and md = ?md
      and ?a0.0 = "[Complex 0 1, Complex (1 / 2) 0]"] l t
  show ?thesis by blast
qed

section \<open>The two loops of the crossing search\<close>

lemma np_index_nat: "ii < length w \<Longrightarrow> np_index w (int ii) = Inr (w ! ii)"
  by (simp add: np_index_def)

lemma np_index_succ:
  "np_index w (int ii + 1) = (if ii + 1 < length w then Inr (w ! (ii + 1)) else Inl IndexError)"
  by (auto simp: np_index_def Let_def nat_add_distrib)

lemma np_index_pred:
  "ii < length w \<Longrightarrow>
   np_index w (int ii + (- 1)) = Inr (w ! (if ii = 0 then length w - 1 else ii - 1))"
  by (auto simp: np_index_def Let_def nat_diff_distrib' of_nat_diff)

lemma left_condition:
  assumes "ii < length w"
  shows "(T (w ! ii) < half
          \<and> (case np_index w (int ii + (- 1)) of
                Inl e \<Rightarrow> True
              | Inr y \<Rightarrow> T y > half \<and> w ! ii > wmin + 1 / 1000 \<and> w ! ii < wmax - 5 / 1000))
         = left_crossing_at T half w wmin wmax ii"
  unfolding np_index_pred[OF assms] left_crossing_at_def by simp

lemma scan_find:
  assumes "\<forall>ii\<in>set idxs. ii < length w"
  shows "scan T half w wmin wmax d margin idxs =
     (case List.find (\<lambda>ii. T (w ! ii) < half
                \<and> (case np_index w (int ii + d) of
                      Inl e \<Rightarrow> True
                    | Inr y \<Rightarrow> T y > half \<and> w ! ii > wmin + margin \<and> w ! ii < wmax - 5 / 1000)) idxs of
        None \<Rightarrow> Inr None
      | Some ii \<Rightarrow> (case np_index w (int ii + d) of Inl e \<Rightarrow> Inl e | Inr y \<Rightarrow> Inr (Some ii)))"
  using assms
  by (induction idxs) (auto simp: np_index_nat split: sum.splits)

lemma first_scan_find:
  "first_scan T half w wmin wmax =
     (case List.find (left_crossing_at T half w wmin wmax) [0..<length w] of
        None \<Rightarrow> Inr None | Some ii \<Rightarrow> Inr (Some ii))"
proof -
  have "List.find (\<lambda>ii. T (w ! ii) < half
                \<and> (case np_index w (int ii + (- 1)) of
                      Inl e \<Rightarrow> True
                    | Inr y \<Rightarrow> T y > half \<and> w ! ii > wmin + 1 / 1000 \<and> w ! ii < wmax - 5 / 1000))
          [0..<length w]
        = List.find (left_crossing_at T half w wmin wmax) [0..<length w]"
    by (rule find_cong) (simp_all only: left_condition set_upt atLeastLessThan_iff)
  moreover have "(case np_index w (int ii + (- 1)) of Inl e \<Rightarrow> Inl e | Inr y \<Rightarrow> Inr (Some ii))
                 = (Inr (Some ii) :: error + nat option)"
    if "List.find (left_crossing_at T half w wmin wmax) [0..<length w] = Some ii" for ii
  proof -
    from that have "ii < length w" by (auto simp: find_Some_iff)
    then show ?thesis by (simp only: np_index_pred sum.case)
  qed
  ultimately show ?thesis
    unfolding first_scan_def
    by (subst scan_find) (auto split: option.splits)
qed

lemma find_upt_Some:
  "List.find P [0..<n] = Some i \<longleftrightarrow> i < n \<and> P i \<and> (\<forall>j<i. \<not> P j)"
  by (auto simp: find_Some_iff) 

lemma find_upt_None:
  "List.find P [0..<n] = None \<longleftrightarrow> (\<forall>j<n. \<not> P j)"
  by (auto simp: find_None_iff)

lemma first_scan_Some:
  "first_scan T half w wmin wmax = Inr (Some i)
   \<longleftrightarrow> i < length w \<and> left_crossing_at T half w wmin wmax i
       \<and> (\<forall>j<i. \<not> left_crossing_at T half w wmin wmax j)"
proof -
  have "first_scan T half w wmin wmax = Inr (Some i)
        \<longleftrightarrow> List.find (left_crossing_at T half w wmin wmax) [0..<length w] = Some i"
    by (simp add: first_scan_find split: option.splits)
  then show ?thesis by (simp only: find_upt_Some)
qed

lemma first_scan_None:
  "first_scan T half w wmin wmax = Inr None
   \<longleftrightarrow> (\<forall>j<length w. \<not> left_crossing_at T half w wmin wmax j)"
proof -
  have "first_scan T half w wmin wmax = Inr None
        \<longleftrightarrow> List.find (left_crossing_at T half w wmin wmax) [0..<length w] = None"
    by (simp add: first_scan_find split: option.splits)
  then show ?thesis by (simp only: find_upt_None)
qed

lemma first_scan_total: "\<exists>r. first_scan T half w wmin wmax = Inr r"
  by (simp add: first_scan_find split: option.splits)


lemma right_condition:
  "(T (w ! ii) < half
    \<and> (case np_index w (int ii + 1) of
          Inl e \<Rightarrow> True
        | Inr y \<Rightarrow> T y > half \<and> w ! ii > wmin + 5 / 1000 \<and> w ! ii < wmax - 5 / 1000))
   = (if ii + 1 < length w then right_crossing_at T half w wmin wmax ii else T (w ! ii) < half)"
  unfolding np_index_succ right_crossing_at_def by simp

lemma second_scan_find:
  "second_scan T half w wmin wmax =
     (case List.find (\<lambda>ii. if ii + 1 < length w then right_crossing_at T half w wmin wmax ii
                            else T (w ! ii) < half) [0..<length w] of
        None \<Rightarrow> Inr None
      | Some ii \<Rightarrow> if ii + 1 < length w then Inr (Some ii) else Inl IndexError)"
proof -
  have "(case np_index w (int ii + 1) of Inl e \<Rightarrow> Inl e | Inr y \<Rightarrow> Inr (Some ii))
        = (if ii + 1 < length w then Inr (Some ii) else (Inl IndexError :: error + nat option))" for ii
    unfolding np_index_succ by simp
  note h = this
  have a: "\<forall>ii\<in>set [0..<length w]. ii < length w" by simp
  show ?thesis
    by (simp only: second_scan_def scan_find[OF a] right_condition h)
qed

lemma second_scan_Some:
  "second_scan T half w wmin wmax = Inr (Some i)
   \<longleftrightarrow> i + 1 < length w \<and> right_crossing_at T half w wmin wmax i
       \<and> (\<forall>j<i. \<not> right_crossing_at T half w wmin wmax j)"
proof -
  let ?Q = "\<lambda>ii. if ii + 1 < length w then right_crossing_at T half w wmin wmax ii
                 else T (w ! ii) < half"
  have "second_scan T half w wmin wmax = Inr (Some i)
        \<longleftrightarrow> List.find ?Q [0..<length w] = Some i \<and> i + 1 < length w"
    by (auto simp: second_scan_find split: option.splits if_splits)
  also have "\<dots> \<longleftrightarrow> i + 1 < length w \<and> ?Q i \<and> (\<forall>j<i. \<not> ?Q j)"
    by (auto simp only: find_upt_Some)
  also have "\<dots> \<longleftrightarrow> i + 1 < length w \<and> right_crossing_at T half w wmin wmax i
       \<and> (\<forall>j<i. \<not> right_crossing_at T half w wmin wmax j)"
    by auto
  finally show ?thesis .
qed

lemma second_scan_None:
  "second_scan T half w wmin wmax = Inr None
   \<longleftrightarrow> (\<forall>j. j + 1 < length w \<longrightarrow> \<not> right_crossing_at T half w wmin wmax j)
       \<and> (w \<noteq> [] \<longrightarrow> \<not> T (w ! (length w - 1)) < half)"
proof -
  let ?Q = "\<lambda>ii. if ii + 1 < length w then right_crossing_at T half w wmin wmax ii
                 else T (w ! ii) < half"
  have "second_scan T half w wmin wmax = Inr None \<longleftrightarrow> List.find ?Q [0..<length w] = None"
    by (auto simp: second_scan_find split: option.splits if_splits)
  also have "\<dots> \<longleftrightarrow> (\<forall>j<length w. \<not> ?Q j)"
    by (simp only: find_upt_None)
  also have "\<dots> \<longleftrightarrow> (\<forall>j. j + 1 < length w \<longrightarrow> \<not> right_crossing_at T half w wmin wmax j)
       \<and> (w \<noteq> [] \<longrightarrow> \<not> T (w ! (length w - 1)) < half)"
  proof (cases "w = []")
    case True
    then show ?thesis by simp
  next
    case False
    then have n: "0 < length w" by simp
    show ?thesis
    proof (intro iffI conjI allI impI)
      fix j assume a: "\<forall>j<length w. \<not> ?Q j" "j + 1 < length w"
      then have "j < length w" by simp
      with a(1) have "\<not> ?Q j" by blast
      with a(2) show "\<not> right_crossing_at T half w wmin wmax j" by simp
    next
      assume a: "\<forall>j<length w. \<not> ?Q j"
      from n have "length w - 1 < length w" by simp
      with a have "\<not> ?Q (length w - 1)" by blast
      with n show "\<not> T (w ! (length w - 1)) < half" by simp
    next
      fix j assume a: "(\<forall>j. j + 1 < length w \<longrightarrow> \<not> right_crossing_at T half w wmin wmax j)
       \<and> (w \<noteq> [] \<longrightarrow> \<not> T (w ! (length w - 1)) < half)" "j < length w"
      show "\<not> ?Q j"
      proof (cases "j + 1 < length w")
        case True
        with a show ?thesis by simp
      next
        case False
        with a(2) have "j = length w - 1" by simp
        with a False \<open>w \<noteq> []\<close> show ?thesis by simp
      qed
    qed
  qed
  finally show ?thesis .
qed

lemma second_scan_IndexError:
  assumes "w \<noteq> []" and "T (w ! (length w - 1)) < half"
    and "\<forall>j. j + 1 < length w \<longrightarrow> \<not> right_crossing_at T half w wmin wmax j"
  shows "second_scan T half w wmin wmax = Inl IndexError"
proof -
  let ?Q = "\<lambda>ii. if ii + 1 < length w then right_crossing_at T half w wmin wmax ii
                 else T (w ! ii) < half"
  from assms(1) have n: "0 < length w" by simp
  have "List.find ?Q [0..<length w] = Some (length w - 1)"
    unfolding find_upt_Some using assms n by auto
  then show ?thesis using n by (simp add: second_scan_find)
qed

section \<open>What find\_FWHM returns\<close>

lemma linspace_length: "length (linspace a b n) = n"
  by (simp add: linspace_def)

lemma linspace_nth: "i < n \<Longrightarrow> linspace a b n ! i = a + real i * ((b - a) / real (n - 1))"
  by (simp add: linspace_def)

lemma fold_min_Min: "fold min xs (x :: real) = Min (set (x # xs))"
  by (simp only: Min.set_eq_fold)

lemma np_min_is_Min: "np_min xs = Inr m \<Longrightarrow> xs \<noteq> [] \<and> m = Min (set xs)"
  by (cases xs) (auto simp only: np_min.simps fold_min_Min sum.inject sum.distinct list.distinct)

lemma np_min_exists: "xs \<noteq> [] \<Longrightarrow> \<exists>m. np_min xs = Inr m"
  by (cases xs) auto

lemma np_min_bounds:
  assumes "np_min xs = Inr m"
  shows "m \<in> set xs" and "\<forall>x\<in>set xs. m \<le> x"
proof -
  from np_min_is_Min[OF assms] have ne: "xs \<noteq> []" and m: "m = Min (set xs)" by auto
  from ne show "m \<in> set xs" unfolding m using Min_in[of "set xs"] by simp
  show "\<forall>x\<in>set xs. m \<le> x" unfolding m by simp
qed

text \<open>
  C1, as amended. When neither loop finds a crossing (both indices keep their initial
  value 0) and the second loop runs to its end, \<^verbatim>\<open>find_FWHM\<close> raises nothing: it
  returns the width 0 and the least wavelength as the peak.
\<close>

theorem find_FWHM_no_crossing:
  assumes "np_min wav = Inr wmin" and "np_max wav = Inr wmax"
    and "CubicSpline wav T = Inr T_interp"
    and "np_min (map T_interp (linspace wmin wmax 1000)) = Inr mini"
    and "first_scan T_interp (5 / 10 + 5 / 10 * mini) (linspace wmin wmax 1000) wmin wmax = Inr None"
    and "second_scan T_interp (5 / 10 + 5 / 10 * mini) (linspace wmin wmax 1000) wmin wmax = Inr None"
  shows "find_FWHM CubicSpline wav T = Inr (0, wmin)"
  using assms
  by (simp add: find_FWHM_def Let_def np_index_def linspace_length linspace_nth peak_index_def)

lemma flat_scans:
  assumes "np_min (map (\<lambda>x. 1) w) = Inr mini"
  shows "first_scan (\<lambda>x. 1) (5 / 10 + 5 / 10 * mini) w wmin wmax = Inr None"
    and "second_scan (\<lambda>x. 1) (5 / 10 + 5 / 10 * mini) w wmin wmax = Inr None"
proof -
  from np_min_bounds(1)[OF assms] have "mini = 1" by auto
  then show "first_scan (\<lambda>x. 1) (5 / 10 + 5 / 10 * mini) w wmin wmax = Inr None"
    by (simp add: first_scan_None left_crossing_at_def)
  from \<open>mini = 1\<close> show "second_scan (\<lambda>x. 1) (5 / 10 + 5 / 10 * mini) w wmin wmax = Inr None"
    by (simp add: second_scan_None right_crossing_at_def)
qed

theorem find_FWHM_no_crossing_witness:
  "find_FWHM flat_spline [154 / 100, 155 / 100, 156 / 100, 157 / 100] [1, 1, 1, 1]
   = Inr (0, 154 / 100)"
proof -
  let ?wav = "[154 / 100, 155 / 100, 156 / 100, 157 / 100 :: real]"
  have a: "np_min ?wav = Inr (154 / 100)" by simp
  have b: "np_max ?wav = Inr (157 / 100)" by simp
  have c: "flat_spline ?wav [1, 1, 1, 1] = Inr (\<lambda>x. 1)" by (simp add: flat_spline_def)
  have "map (\<lambda>x. 1 :: real) (linspace (154 / 100) (157 / 100) 1000) \<noteq> []"
    by (simp add: linspace_def)
  from np_min_exists[OF this] obtain mini
    where d: "np_min (map (\<lambda>x. 1) (linspace (154 / 100) (157 / 100) 1000)) = Inr mini" ..
  note s = flat_scans[OF d, of "154 / 100" "157 / 100"]
  from find_FWHM_no_crossing[where CubicSpline = flat_spline and wav = ?wav
      and T = "[1, 1, 1, 1]" and T_interp = "\<lambda>x. 1", OF a b c d s]
  show ?thesis .
qed

text \<open>
  The claim as written fails on a flat spectrum: the result is the pair of the width 0
  and the least wavelength, not an error.
\<close>

theorem find_FWHM_flat_counterexample:
  "find_FWHM flat_spline [150 / 100, 152 / 100, 154 / 100, 156 / 100] [1, 1, 1, 1]
   = Inr (0, 150 / 100)"
proof -
  let ?g = "linspace (150 / 100) (156 / 100) 1000"
  have "map (\<lambda>x. 1 :: real) ?g \<noteq> []" by (simp add: linspace_def)
  from np_min_exists[OF this] obtain mini where d: "np_min (map (\<lambda>x. 1) ?g) = Inr mini" ..
  from flat_scans[OF d] d show ?thesis
    by (simp add: find_FWHM_def flat_spline_def Let_def np_index_def linspace_length linspace_nth
        peak_index_def)
qed

text \<open>
  C10. When the interpolated power at the last point of the grid is below the half level
  and no earlier index fulfils the condition of the second loop, the second loop reaches
  index 999, reads \<open>wav_interp[1000]\<close> in an array of 1000 points, and
  \<^verbatim>\<open>find_FWHM\<close> ends with \<^verbatim>\<open>IndexError\<close>.
\<close>

theorem find_FWHM_index_error:
  assumes "np_min wav = Inr wmin" and "np_max wav = Inr wmax"
    and "CubicSpline wav T = Inr T_interp"
    and "np_min (map T_interp (linspace wmin wmax 1000)) = Inr mini"
    and "T_interp (linspace wmin wmax 1000 ! 999) < 5 / 10 + 5 / 10 * mini"
    and "\<forall>ii<999. \<not> right_crossing_at T_interp (5 / 10 + 5 / 10 * mini)
                      (linspace wmin wmax 1000) wmin wmax ii"
  shows "find_FWHM CubicSpline wav T = Inl IndexError
       \<and> length (linspace wmin wmax 1000) = 1000
       \<and> np_index (linspace wmin wmax 1000) 1000 = Inl IndexError"
proof -
  let ?g = "linspace wmin wmax 1000"
  let ?h = "5 / 10 + 5 / 10 * mini"
  obtain r0 where r0: "first_scan T_interp ?h ?g wmin wmax = Inr r0"
    using first_scan_total by blast
  have ne: "?g \<noteq> []" by (simp add: linspace_def)
  have "second_scan T_interp ?h ?g wmin wmax = Inl IndexError"
    using ne assms(5,6) by (intro second_scan_IndexError) (simp_all add: linspace_length)
  with assms(1-4) r0 have "find_FWHM CubicSpline wav T = Inl IndexError"
    by (simp add: find_FWHM_def Let_def)
  then show ?thesis by (simp add: linspace_length np_index_def)
qed

lemma falling_grid:
  "i < 1000 \<Longrightarrow>
   falling_interp (linspace (150 / 100) (156 / 100) 1000 ! i) = 1 - 3 / 10 * (real i / 999)"
  by (simp add: linspace_nth falling_interp_def)

lemma rising_grid:
  "i < 1000 \<Longrightarrow>
   rising_interp (linspace (150 / 100) (156 / 100) 1000 ! i) = 7 / 10 + 3 / 10 * (real i / 999)"
  by (simp add: linspace_nth rising_interp_def)

lemma narrow_grid:
  "i < 1000 \<Longrightarrow>
   narrow_interp (linspace (1500 / 1000) (1509 / 1000) 1000 ! i) = 1 - 3 / 10 * (real i / 999)"
  by (simp add: linspace_nth narrow_interp_def)

lemma falling_mini:
  assumes "np_min (map falling_interp (linspace (150 / 100) (156 / 100) 1000)) = Inr mini"
  shows "mini = 7 / 10"
proof -
  let ?g = "linspace (150 / 100) (156 / 100) 1000"
  from np_min_bounds(1)[OF assms] obtain i where i: "i < 1000" "mini = falling_interp (?g ! i)"
    by (auto simp: in_set_conv_nth linspace_length)
  then have "real i \<le> 999" by simp
  with i falling_grid[of i] have lo: "7 / 10 \<le> mini" by simp
  have "falling_interp (?g ! 999) \<in> set (map falling_interp ?g)"
    by (simp add: linspace_length)
  with np_min_bounds(2)[OF assms] have "mini \<le> falling_interp (?g ! 999)" by blast
  with falling_grid[of 999] have "mini \<le> 7 / 10" by simp
  with lo show ?thesis by simp
qed

theorem find_FWHM_index_error_witness:
  "find_FWHM falling_spline [150 / 100, 152 / 100, 154 / 100, 156 / 100]
     [1, 9 / 10, 8 / 10, 7 / 10] = Inl IndexError"
proof -
  let ?wav = "[150 / 100, 152 / 100, 154 / 100, 156 / 100 :: real]"
  let ?g = "linspace (150 / 100) (156 / 100) 1000"
  have a: "np_min ?wav = Inr (150 / 100)" by simp
  have b: "np_max ?wav = Inr (156 / 100)" by simp
  have c: "falling_spline ?wav [1, 9 / 10, 8 / 10, 7 / 10] = Inr falling_interp"
    by (simp add: falling_spline_def)
  have "map falling_interp ?g \<noteq> []" by (simp add: linspace_def)
  from np_min_exists[OF this] obtain mini where d: "np_min (map falling_interp ?g) = Inr mini" ..
  have m: "mini = 7 / 10" by (rule falling_mini[OF d])
  have e: "falling_interp (?g ! 999) < 5 / 10 + 5 / 10 * mini"
    using falling_grid[of 999] m by simp
  have f: "\<forall>ii<999. \<not> right_crossing_at falling_interp (5 / 10 + 5 / 10 * mini) ?g
                       (150 / 100) (156 / 100) ii"
  proof (intro allI impI)
    fix ii :: nat assume "ii < 999"
    with falling_grid[of ii] falling_grid[of "ii + 1"]
    have "falling_interp (?g ! (ii + 1)) \<le> falling_interp (?g ! ii)"
      by simp
    then show "\<not> right_crossing_at falling_interp (5 / 10 + 5 / 10 * mini) ?g
                  (150 / 100) (156 / 100) ii"
      by (auto simp: right_crossing_at_def)
  qed
  from find_FWHM_index_error[where CubicSpline = falling_spline and wav = ?wav
      and T = "[1, 9 / 10, 8 / 10, 7 / 10]" and T_interp = falling_interp, OF a b c d e f]
  show ?thesis by simp
qed

text \<open>
  C6, as amended. The first loop breaks at the first index of the grid where the
  interpolant is below the half level, its left neighbour is above it, and the wavelength
  lies more than \<open>0.001\<close> above the least and more than \<open>0.005\<close> below the greatest
  wavelength; the second loop breaks at the first index where the interpolant is below
  the half level, its right neighbour is above it, and the wavelength lies more than
  \<open>0.005\<close> above the least and more than \<open>0.005\<close> below the greatest wavelength. The
  margins are these absolute amounts (in the unit of the wavelengths), whatever the span.
\<close>

theorem crossing_search_margins:
  "(first_scan T_interp half_level wav_interp wmin wmax = Inr (Some i)
      \<longleftrightarrow> i < length wav_interp
          \<and> left_crossing_at T_interp half_level wav_interp wmin wmax i
          \<and> (\<forall>j<i. \<not> left_crossing_at T_interp half_level wav_interp wmin wmax j))
   \<and> (second_scan T_interp half_level wav_interp wmin wmax = Inr (Some k)
      \<longleftrightarrow> k + 1 < length wav_interp
          \<and> right_crossing_at T_interp half_level wav_interp wmin wmax k
          \<and> (\<forall>j<k. \<not> right_crossing_at T_interp half_level wav_interp wmin wmax j))"
  by (simp only: first_scan_Some second_scan_Some simp_thms)

theorem crossing_search_margins_witness:
  "first_scan falling_interp (85 / 100) (linspace (150 / 100) (156 / 100) 1000)
     (150 / 100) (156 / 100) = Inr (Some 500)
   \<and> second_scan rising_interp (85 / 100) (linspace (150 / 100) (156 / 100) 1000)
     (150 / 100) (156 / 100) = Inr (Some 499)"
proof -
  let ?g = "linspace (150 / 100) (156 / 100) 1000"
  have g: "?g ! i = 150 / 100 + real i * ((156 / 100 - 150 / 100) / 999)" if "i < 1000" for i
    using that by (simp add: linspace_nth)
  have l500: "left_crossing_at falling_interp (85 / 100) ?g (150 / 100) (156 / 100) 500"
    using falling_grid[of 500] falling_grid[of 499] g[of 500]
    by (simp add: left_crossing_at_def)
  have lbefore: "\<not> left_crossing_at falling_interp (85 / 100) ?g (150 / 100) (156 / 100) j"
    if "j < 500" for j
  proof -
    from that have "real j \<le> 499" by simp
    with falling_grid[of j] that have "\<not> falling_interp (?g ! j) < 85 / 100" by simp
    then show ?thesis by (simp add: left_crossing_at_def)
  qed
  have r499: "right_crossing_at rising_interp (85 / 100) ?g (150 / 100) (156 / 100) 499"
    using rising_grid[of 500] rising_grid[of 499] g[of 499]
    by (simp add: right_crossing_at_def)
  have rbefore: "\<not> right_crossing_at rising_interp (85 / 100) ?g (150 / 100) (156 / 100) j"
    if "j < 499" for j
  proof -
    from that have "real j + 1 \<le> 499" by simp
    with rising_grid[of "j + 1"] that have "\<not> rising_interp (?g ! (j + 1)) > 85 / 100" by simp
    then show ?thesis by (simp add: right_crossing_at_def)
  qed
  have len: "length ?g = 1000" by (simp add: linspace_length)
  from crossing_search_margins[of falling_interp "85 / 100" ?g "150 / 100" "156 / 100" 500]
    l500 lbefore len
  have "first_scan falling_interp (85 / 100) ?g (150 / 100) (156 / 100) = Inr (Some 500)"
    by simp
  moreover
  from crossing_search_margins[of rising_interp "85 / 100" ?g "150 / 100" "156 / 100" _ 499]
    r499 rbefore len
  have "second_scan rising_interp (85 / 100) ?g (150 / 100) (156 / 100) = Inr (Some 499)"
    by simp
  ultimately show ?thesis by blast
qed

lemma narrow_left_search:
  "np_min (map narrow_interp (linspace (1500 / 1000) (1509 / 1000) 1000)) = Inr (7 / 10)
   \<and> first_scan narrow_interp (5 / 10 + 5 / 10 * (7 / 10))
       (linspace (1500 / 1000) (1509 / 1000) 1000) (1500 / 1000) (1509 / 1000) = Inr None
   \<and> spec_left_crossing narrow_interp (5 / 10 + 5 / 10 * (7 / 10))
       (linspace (1500 / 1000) (1509 / 1000) 1000) (1500 / 1000) (1509 / 1000) = Some 500"
proof -
  let ?g = "linspace (1500 / 1000) (1509 / 1000) 1000"
  have g: "?g ! i = 1500 / 1000 + real i * ((1509 / 1000 - 1500 / 1000) / 999)" if "i < 1000" for i
    using that by (simp add: linspace_nth)
  have len: "length ?g = 1000" by (simp add: linspace_length)
  have "map narrow_interp ?g \<noteq> []" by (simp add: linspace_def)
  from np_min_exists[OF this] obtain mini where d: "np_min (map narrow_interp ?g) = Inr mini" ..
  from np_min_bounds(1)[OF d] obtain i where i: "i < 1000" "mini = narrow_interp (?g ! i)"
    by (auto simp: in_set_conv_nth linspace_length)
  then have "real i \<le> 999" by simp
  with i narrow_grid[of i] have lo: "7 / 10 \<le> mini" by simp
  have "narrow_interp (?g ! 999) \<in> set (map narrow_interp ?g)" by (simp add: linspace_length)
  with np_min_bounds(2)[OF d] have "mini \<le> narrow_interp (?g ! 999)" by blast
  with narrow_grid[of 999] have "mini \<le> 7 / 10" by simp
  with lo d have m: "np_min (map narrow_interp ?g) = Inr (7 / 10)" by simp
  have none: "\<not> left_crossing_at narrow_interp (85 / 100) ?g (1500 / 1000) (1509 / 1000) j"
    if "j < 1000" for j
  proof (cases "j < 500")
    case True
    then have "real j \<le> 499" by simp
    with narrow_grid[of j] that have "\<not> narrow_interp (?g ! j) < 85 / 100" by simp
    then show ?thesis by (simp add: left_crossing_at_def)
  next
    case False
    then have "500 \<le> real j" by simp
    with g[of j] that have "\<not> ?g ! j < 1509 / 1000 - 5 / 1000" by simp
    then show ?thesis by (simp add: left_crossing_at_def)
  qed
  then have f: "first_scan narrow_interp (85 / 100) ?g (1500 / 1000) (1509 / 1000) = Inr None"
    unfolding first_scan_None len by blast
  have at: "0 < (500 :: nat)
      \<and> narrow_interp (?g ! (500 - 1)) > 85 / 100
      \<and> narrow_interp (?g ! 500) < 85 / 100
      \<and> ?g ! 500 > 1500 / 1000 + 1 / 1000 * (1509 / 1000 - 1500 / 1000)
      \<and> ?g ! 500 < 1509 / 1000 - 5 / 1000 * (1509 / 1000 - 1500 / 1000)"
    using narrow_grid[of 499] narrow_grid[of 500] g[of 500] by simp
  have before: "\<not> narrow_interp (?g ! j) < 85 / 100" if "j < 500" for j
  proof -
    from that have "real j \<le> 499" by simp
    with narrow_grid[of j] that show ?thesis by simp
  qed
  have s: "spec_left_crossing narrow_interp (85 / 100) ?g (1500 / 1000) (1509 / 1000) = Some 500"
    unfolding spec_left_crossing_def find_upt_Some len
    using at before by simp
  have h: "(5 / 10 + 5 / 10 * (7 / 10) :: real) = 85 / 100" by simp
  show ?thesis unfolding h using m f s by simp
qed

lemma narrow_rising_grid:
  "i < 1000 \<Longrightarrow>
   narrow_rising_interp (linspace (1500 / 1000) (1509 / 1000) 1000 ! i)
   = 7 / 10 + 3 / 10 * (real i / 999)"
  by (simp add: linspace_nth narrow_rising_interp_def)

lemma narrow_right_search:
  "np_min (map narrow_rising_interp (linspace (1500 / 1000) (1509 / 1000) 1000)) = Inr (7 / 10)
   \<and> second_scan narrow_rising_interp (5 / 10 + 5 / 10 * (7 / 10))
       (linspace (1500 / 1000) (1509 / 1000) 1000) (1500 / 1000) (1509 / 1000) = Inr None
   \<and> spec_right_crossing narrow_rising_interp (5 / 10 + 5 / 10 * (7 / 10))
       (linspace (1500 / 1000) (1509 / 1000) 1000) (1500 / 1000) (1509 / 1000) = Some 499"
proof -
  let ?g = "linspace (1500 / 1000) (1509 / 1000) 1000"
  have g: "?g ! i = 1500 / 1000 + real i * ((1509 / 1000 - 1500 / 1000) / 999)" if "i < 1000" for i
    using that by (simp add: linspace_nth)
  have len: "length ?g = 1000" by (simp add: linspace_length)
  have ne: "?g \<noteq> []" by (simp add: linspace_def)
  then have "map narrow_rising_interp ?g \<noteq> []" by simp
  from np_min_exists[OF this] obtain mini
    where d: "np_min (map narrow_rising_interp ?g) = Inr mini" ..
  from np_min_bounds(1)[OF d] obtain i
    where i: "i < 1000" "mini = narrow_rising_interp (?g ! i)"
    by (auto simp: in_set_conv_nth linspace_length)
  with narrow_rising_grid[of i] have lo: "7 / 10 \<le> mini" by simp
  have "narrow_rising_interp (?g ! 0) \<in> set (map narrow_rising_interp ?g)"
    using ne by (simp del: nth_map)
  with np_min_bounds(2)[OF d] have "mini \<le> narrow_rising_interp (?g ! 0)" by blast
  with narrow_rising_grid[of 0] have "mini \<le> 7 / 10" by simp
  with lo d have m: "np_min (map narrow_rising_interp ?g) = Inr (7 / 10)" by simp
  have none: "\<not> right_crossing_at narrow_rising_interp (85 / 100) ?g
                   (1500 / 1000) (1509 / 1000) j" for j
    by (simp add: right_crossing_at_def)
  have last: "\<not> narrow_rising_interp (?g ! (1000 - 1)) < 85 / 100"
    using narrow_rising_grid[of 999] by simp
  have f: "second_scan narrow_rising_interp (85 / 100) ?g (1500 / 1000) (1509 / 1000) = Inr None"
    unfolding second_scan_None len using none last by blast
  have at: "(499 :: nat) + 1 < 1000
      \<and> narrow_rising_interp (?g ! 499) < 85 / 100
      \<and> narrow_rising_interp (?g ! (499 + 1)) > 85 / 100
      \<and> ?g ! 499 > 1500 / 1000 + 5 / 1000 * (1509 / 1000 - 1500 / 1000)
      \<and> ?g ! 499 < 1509 / 1000 - 5 / 1000 * (1509 / 1000 - 1500 / 1000)"
    using narrow_rising_grid[of 499] narrow_rising_grid[of 500] g[of 499] by simp
  have before: "\<not> narrow_rising_interp (?g ! (j + 1)) > 85 / 100" if "j < 499" for j
  proof -
    from that have "real j + 1 \<le> 499" by simp
    with narrow_rising_grid[of "j + 1"] that show ?thesis by simp
  qed
  have s: "spec_right_crossing narrow_rising_interp (85 / 100) ?g (1500 / 1000) (1509 / 1000)
           = Some 499"
    unfolding spec_right_crossing_def find_upt_Some len
    using at before by simp
  have h: "(5 / 10 + 5 / 10 * (7 / 10) :: real) = 85 / 100" by simp
  show ?thesis unfolding h using m f s by simp
qed

text \<open>
  The claim as written fails on spectra whose span is 0.009. A falling transmission
  passes the half level at index 500, in the middle of the span and so inside the
  fractional margins, but less than \<open>0.005\<close> below the greatest wavelength: the first
  loop finds nothing. A rising transmission passes the half level at index 499, and no
  wavelength lies both \<open>0.005\<close> above the least and \<open>0.005\<close> below the greatest: the
  second loop finds nothing.
\<close>

theorem crossing_search_fraction_counterexample:
  "(np_min (map narrow_interp (linspace (1500 / 1000) (1509 / 1000) 1000)) = Inr (7 / 10)
    \<and> first_scan narrow_interp (5 / 10 + 5 / 10 * (7 / 10))
        (linspace (1500 / 1000) (1509 / 1000) 1000) (1500 / 1000) (1509 / 1000) = Inr None
    \<and> spec_left_crossing narrow_interp (5 / 10 + 5 / 10 * (7 / 10))
        (linspace (1500 / 1000) (1509 / 1000) 1000) (1500 / 1000) (1509 / 1000) = Some 500)
   \<and> (np_min (map narrow_rising_interp (linspace (1500 / 1000) (1509 / 1000) 1000))
        = Inr (7 / 10)
    \<and> second_scan narrow_rising_interp (5 / 10 + 5 / 10 * (7 / 10))
        (linspace (1500 / 1000) (1509 / 1000) 1000) (1500 / 1000) (1509 / 1000) = Inr None
    \<and> spec_right_crossing narrow_rising_interp (5 / 10 + 5 / 10 * (7 / 10))
        (linspace (1500 / 1000) (1509 / 1000) 1000) (1500 / 1000) (1509 / 1000) = Some 499)"
  by (rule conjI[OF narrow_left_search narrow_right_search])

end
